theory Spec2Isabelle
  imports Complex_Main
begin

section \<open>Binary64 arithmetic of the price columns\<close>

text \<open>
  Prices and returns are \<^verbatim>\<open>numpy.float64\<close> values (the \<^verbatim>\<open>Close\<close> column of the
  provider's frame, and what \<^verbatim>\<open>-\<close>, \<^verbatim>\<open>/\<close>, \<^verbatim>\<open>*\<close> give on them). A finite value is
  held as the real number it denotes; every operation computes the exact result and
  rounds it to the nearest binary64 value, ties to even, with gradual
  underflow and overflow to an infinity. Division by zero gives an infinity or NaN and
  raises nothing, as numpy scalars do. The sign of a zero is not represented: \<open>Finite 0\<close>
  stands for \<^verbatim>\<open>+0.0\<close>.
\<close>

datatype f64 = Finite real | PInf | NInf | NaN

definition pow2 :: "int \<Rightarrow> real" where
  "pow2 k = (if 0 \<le> k then 2 ^ nat k else 1 / 2 ^ nat (- k))"

fun bit_length :: "nat \<Rightarrow> nat" where
  "bit_length n = (if n = 0 then 0 else Suc (bit_length (n div 2)))"

declare bit_length.simps [simp del]

definition ilog2 :: "real \<Rightarrow> int" where
  \<comment> \<open>the binary exponent \<open>\<lfloor>log\<^sub>2 \<bar>r\<bar>\<rfloor>\<close> of a non-zero number, from the bit length of
      \<open>\<lfloor>\<bar>r\<bar>\<rfloor>\<close> when \<open>1 \<le> \<bar>r\<bar>\<close> and of \<open>\<lceil>1 / \<bar>r\<bar>\<rceil> - 1\<close> otherwise\<close>
  "ilog2 r =
     (if 1 \<le> \<bar>r\<bar> then int (bit_length (nat \<lfloor>\<bar>r\<bar>\<rfloor>)) - 1
      else - int (bit_length (nat (\<lceil>1 / \<bar>r\<bar>\<rceil> - 1))))"

definition round_half_even :: "real \<Rightarrow> int" where
  "round_half_even x =
     (let f = \<lfloor>x\<rfloor>; d = x - of_int f
      in if d < 1 / 2 then f
         else if 1 / 2 < d then f + 1
         else if even f then f else f + 1)"

definition round64 :: "real \<Rightarrow> f64" where
  "round64 r =
     (if r = 0 then Finite 0
      else let e = max (ilog2 r) (- 1022);
               ulp = pow2 (e - 52);
               v = of_int (round_half_even (r / ulp)) * ulp
           in if pow2 1024 \<le> \<bar>v\<bar> then (if 0 < r then PInf else NInf) else Finite v)"

fun fneg :: "f64 \<Rightarrow> f64" where
  "fneg (Finite x) = Finite (- x)"
| "fneg PInf = NInf"
| "fneg NInf = PInf"
| "fneg NaN = NaN"

fun fadd :: "f64 \<Rightarrow> f64 \<Rightarrow> f64" where
  "fadd NaN _ = NaN"
| "fadd _ NaN = NaN"
| "fadd (Finite x) (Finite y) = round64 (x + y)"
| "fadd PInf NInf = NaN"
| "fadd NInf PInf = NaN"
| "fadd PInf _ = PInf"
| "fadd NInf _ = NInf"
| "fadd _ PInf = PInf"
| "fadd _ NInf = NInf"

definition fsub :: "f64 \<Rightarrow> f64 \<Rightarrow> f64" where
  "fsub a b = fadd a (fneg b)"

fun fsign :: "f64 \<Rightarrow> int" where
  \<comment> \<open>\<open>1\<close>, \<open>0\<close> or \<open>-1\<close>; a zero counts as positive where only the sign matters\<close>
  "fsign (Finite x) = (if x < 0 then - 1 else if x = 0 then 0 else 1)"
| "fsign PInf = 1"
| "fsign NInf = - 1"
| "fsign NaN = 0"

definition signed_inf :: "int \<Rightarrow> f64" where
  "signed_inf s = (if s < 0 then NInf else PInf)"

fun fmul :: "f64 \<Rightarrow> f64 \<Rightarrow> f64" where
  "fmul NaN _ = NaN"
| "fmul _ NaN = NaN"
| "fmul (Finite x) (Finite y) = round64 (x * y)"
| "fmul a b = (if fsign a = 0 \<or> fsign b = 0 then NaN else signed_inf (fsign a * fsign b))"

fun fdiv :: "f64 \<Rightarrow> f64 \<Rightarrow> f64" where
  "fdiv NaN _ = NaN"
| "fdiv _ NaN = NaN"
| "fdiv (Finite x) (Finite y) =
     (if y = 0 then (if x = 0 then NaN else signed_inf (fsign (Finite x)))
      else round64 (x / y))"
| "fdiv (Finite x) _ = Finite 0"
| "fdiv a (Finite y) = signed_inf (fsign a * (if y < 0 then - 1 else 1))"
| "fdiv _ _ = NaN"

fun flt :: "f64 \<Rightarrow> f64 \<Rightarrow> bool" where
  \<comment> \<open>\<^verbatim>\<open>a < b\<close>; every comparison with NaN is false\<close>
  "flt NaN _ = False"
| "flt _ NaN = False"
| "flt (Finite x) (Finite y) = (x < y)"
| "flt NInf NInf = False"
| "flt NInf _ = True"
| "flt _ NInf = False"
| "flt PInf _ = False"
| "flt _ PInf = True"

definition fgt :: "f64 \<Rightarrow> f64 \<Rightarrow> bool" where
  "fgt a b = flt b a"

definition of_count :: "nat \<Rightarrow> f64" where
  \<comment> \<open>an integer count converted to binary64\<close>
  "of_count n = round64 (of_nat n)"

section \<open>Data model (models.py)\<close>

text \<open>
  A calendar date is its day number, a \<^verbatim>\<open>timedelta(days=n)\<close> is the integer \<open>n\<close>, and a
  \<^verbatim>\<open>datetime\<close> is a calendar date with a time of day (in seconds); the selector
  \<open>date\<close> is the method \<^verbatim>\<open>.date()\<close>. The year range of Python's dates is not modelled.
  The text of a post is a Python \<^verbatim>\<open>str\<close>, the list of its Unicode code points; tickers,
  identifiers and attribute names are ASCII strings.
\<close>

record datetime =
  date :: int
  time_of_day :: nat

type_synonym unicode = "nat list"

definition ascii :: "string \<Rightarrow> unicode" where
  \<comment> \<open>the text of an ASCII literal\<close>
  "ascii s = map of_char s"

record StockMention =
  ticker :: string
  post_id :: string
  post_title :: unicode
  post_date :: datetime
  post_score :: int
  post_url :: string
  author :: string

record StockPerformance =
  ticker :: string
  post_date :: datetime
  price_at_post :: f64
  price_1d :: "f64 option"
  price_3d :: "f64 option"
  price_1w :: "f64 option"
  price_2w :: "f64 option"
  price_1m :: "f64 option"
  return_1d :: "f64 option"
  return_3d :: "f64 option"
  return_1w :: "f64 option"
  return_2w :: "f64 option"
  return_1m :: "f64 option"

definition new_StockPerformance :: "string \<Rightarrow> datetime \<Rightarrow> f64 \<Rightarrow> StockPerformance" where
  \<comment> \<open>the dataclass constructor with its defaults: every horizon field is \<^verbatim>\<open>None\<close>\<close>
  "new_StockPerformance t d p =
     \<lparr>ticker = t, post_date = d, price_at_post = p,
      price_1d = None, price_3d = None, price_1w = None, price_2w = None, price_1m = None,
      return_1d = None, return_3d = None, return_1w = None, return_2w = None,
      return_1m = None\<rparr>"

definition setattr :: "StockPerformance \<Rightarrow> string \<Rightarrow> f64 \<Rightarrow> StockPerformance" where
  \<comment> \<open>\<^verbatim>\<open>setattr(performance, name, value)\<close> for the horizon attributes; any other name
      leaves the fields of the dataclass as they are\<close>
  "setattr p name v =
     (if name = ''price_1d'' then p\<lparr>price_1d := Some v\<rparr>
      else if name = ''price_3d'' then p\<lparr>price_3d := Some v\<rparr>
      else if name = ''price_1w'' then p\<lparr>price_1w := Some v\<rparr>
      else if name = ''price_2w'' then p\<lparr>price_2w := Some v\<rparr>
      else if name = ''price_1m'' then p\<lparr>price_1m := Some v\<rparr>
      else if name = ''return_1d'' then p\<lparr>return_1d := Some v\<rparr>
      else if name = ''return_3d'' then p\<lparr>return_3d := Some v\<rparr>
      else if name = ''return_1w'' then p\<lparr>return_1w := Some v\<rparr>
      else if name = ''return_2w'' then p\<lparr>return_2w := Some v\<rparr>
      else if name = ''return_1m'' then p\<lparr>return_1m := Some v\<rparr>
      else p)"

definition getattr :: "StockPerformance \<Rightarrow> string \<Rightarrow> f64 option" where
  \<comment> \<open>reading a horizon attribute by name, to state properties of \<open>setattr\<close>\<close>
  "getattr p name =
     (if name = ''price_1d'' then price_1d p
      else if name = ''price_3d'' then price_3d p
      else if name = ''price_1w'' then price_1w p
      else if name = ''price_2w'' then price_2w p
      else if name = ''price_1m'' then price_1m p
      else if name = ''return_1d'' then return_1d p
      else if name = ''return_3d'' then return_3d p
      else if name = ''return_1w'' then return_1w p
      else if name = ''return_2w'' then return_2w p
      else if name = ''return_1m'' then return_1m p
      else None)"

section \<open>Configuration (config.py)\<close>

definition TIME_PERIODS :: "(int \<times> string \<times> string) list" where
  "TIME_PERIODS =
     [(1, ''return_1d'', ''price_1d''),
      (3, ''return_3d'', ''price_3d''),
      (7, ''return_1w'', ''price_1w''),
      (14, ''return_2w'', ''price_2w''),
      (30, ''return_1m'', ''price_1m'')]"

section \<open>Performance calculator (stock\_analyzer.py)\<close>

text \<open>
  The price provider is a parameter: \<open>history t s e\<close> is what
  \<^verbatim>\<open>yf.Ticker(t).history(start=s, end=e)\<close> gives, either an exception (\<open>Inl\<close>) or
  the rows of the frame in index order, each a trading date (\<^verbatim>\<open>index.date\<close>) with
  its \<^verbatim>\<open>Close\<close>. The pauses of \<^verbatim>\<open>time.sleep\<close> and the printed lines change no
  result and are left out.
\<close>

type_synonym price_series = "(int \<times> f64) list"

datatype py_exception = ProviderError | IndexError | ValueError string

type_synonym history_provider = "string \<Rightarrow> int \<Rightarrow> int \<Rightarrow> py_exception + price_series"

definition get_stock_data :: "history_provider \<Rightarrow> string \<Rightarrow> int \<Rightarrow> int \<Rightarrow> price_series option" where
  "get_stock_data history t start_date end_date =
     (case history t start_date end_date of
        Inl e \<Rightarrow> None
      | Inr data \<Rightarrow> if data = [] then None else Some data)"

fun find_post_price_date :: "int list \<Rightarrow> int \<Rightarrow> int option" where
  \<comment> \<open>the loop of lines 58 to 62: the first date of the index that is not before the post\<close>
  "find_post_price_date [] post_day = None"
| "find_post_price_date (d # ds) post_day =
     (if post_day \<le> d then Some d else find_post_price_date ds post_day)"

fun close_on :: "price_series \<Rightarrow> int \<Rightarrow> f64 option" where
  \<comment> \<open>\<^verbatim>\<open>stock_data.loc[stock_data.index.date == d, 'Close'].iloc[0]\<close>: the close of the
      first row dated \<open>d\<close>; \<open>None\<close> is the IndexError of \<^verbatim>\<open>iloc[0]\<close> on no row\<close>
  "close_on [] d = None"
| "close_on ((d', c) # rows) d = (if d' = d then Some c else close_on rows d)"

fun closest_scan :: "int \<Rightarrow> int list \<Rightarrow> int option \<times> int option \<Rightarrow> int option \<times> int option" where
  \<comment> \<open>the loop of lines 82 to 87 on the state \<open>(closest_date, min_diff)\<close>; a \<open>min_diff\<close>
      of \<open>None\<close> is \<^verbatim>\<open>float('inf')\<close>\<close>
  "closest_scan target_date [] st = st"
| "closest_scan target_date (d # ds) (closest_date, min_diff) =
     (if target_date \<le> d then
        (let diff = d - target_date in
         if (case min_diff of None \<Rightarrow> True | Some m \<Rightarrow> diff < m)
         then closest_scan target_date ds (Some d, Some diff)
         else closest_scan target_date ds (closest_date, min_diff))
      else closest_scan target_date ds (closest_date, min_diff))"

definition return_pct :: "f64 \<Rightarrow> f64 \<Rightarrow> f64" where
  \<comment> \<open>\<^verbatim>\<open>((future_price - price_at_post) / price_at_post) * 100\<close>\<close>
  "return_pct future_price p0 = fmul (fdiv (fsub future_price p0) p0) (Finite 100)"

definition horizon_step ::
  "price_series \<Rightarrow> int \<Rightarrow> f64 \<Rightarrow> StockPerformance \<Rightarrow> int \<times> string \<times> string
     \<Rightarrow> py_exception + StockPerformance" where
  \<comment> \<open>one round of the loop over \<^verbatim>\<open>self.time_periods\<close> (lines 76 to 94)\<close>
  "horizon_step stock_data post_day p0 performance period =
     (case period of (days, return_attr, price_attr) \<Rightarrow>
        (let target_date = post_day + days in
         case closest_scan target_date (map fst stock_data) (None, None) of
           (Some closest_date, Some min_diff) \<Rightarrow>
             if min_diff \<le> 5 then
               (case close_on stock_data closest_date of
                  None \<Rightarrow> Inl IndexError
                | Some future_price \<Rightarrow>
                    Inr (setattr (setattr performance return_attr (return_pct future_price p0))
                           price_attr future_price))
             else Inr performance
         | _ \<Rightarrow> Inr performance))"

fun horizon_loop ::
  "price_series \<Rightarrow> int \<Rightarrow> f64 \<Rightarrow> StockPerformance \<Rightarrow> (int \<times> string \<times> string) list
     \<Rightarrow> py_exception + StockPerformance" where
  "horizon_loop stock_data post_day p0 performance [] = Inr performance"
| "horizon_loop stock_data post_day p0 performance (period # periods) =
     (case horizon_step stock_data post_day p0 performance period of
        Inl e \<Rightarrow> Inl e
      | Inr performance' \<Rightarrow> horizon_loop stock_data post_day p0 performance' periods)"

definition analyze_mention ::
  "(int \<times> string \<times> string) list \<Rightarrow> price_series \<Rightarrow> StockMention \<Rightarrow> StockPerformance option" where
  \<comment> \<open>the \<^verbatim>\<open>try\<close> block of lines 54 to 100 for one mention and its frame: \<open>None\<close> when the
      pair is skipped (no date on or after the post, or an exception caught)\<close>
  "analyze_mention time_periods stock_data mention =
     (let post_day = date (StockMention.post_date mention) in
      case find_post_price_date (map fst stock_data) post_day of
        None \<Rightarrow> None
      | Some post_price_date \<Rightarrow>
          (case close_on stock_data post_price_date of
             None \<Rightarrow> None
           | Some p0 \<Rightarrow>
               (case horizon_loop stock_data post_day p0
                       (new_StockPerformance (StockMention.ticker mention)
                          (StockMention.post_date mention) p0)
                       time_periods of
                  Inl e \<Rightarrow> None
                | Inr performance \<Rightarrow> Some performance)))"

definition process_mention ::
  "history_provider \<Rightarrow> (int \<times> string \<times> string) list \<Rightarrow> StockMention \<Rightarrow> StockPerformance option" where
  \<comment> \<open>lines 43 to 100, what the loop does with a mention that is not skipped as a
      duplicate: \<open>None\<close> is each \<^verbatim>\<open>continue\<close>, \<open>Some\<close> the record appended\<close>
  "process_mention history time_periods mention =
     (let start_date = date (StockMention.post_date mention) - 1;
          end_date = date (StockMention.post_date mention) + 35
      in case get_stock_data history (StockMention.ticker mention) start_date end_date of
           None \<Rightarrow> None
         | Some stock_data \<Rightarrow> analyze_mention time_periods stock_data mention)"

fun performance_loop ::
  "history_provider \<Rightarrow> (int \<times> string \<times> string) list \<Rightarrow> StockMention list
     \<Rightarrow> StockPerformance list \<Rightarrow> (string \<times> int) set \<Rightarrow> StockPerformance list" where
  \<comment> \<open>the loop of lines 37 to 102 on the state \<open>(performances, processed_pairs)\<close>\<close>
  "performance_loop history time_periods [] performances processed_pairs = performances"
| "performance_loop history time_periods (mention # mentions) performances processed_pairs =
     (let pair_key = (StockMention.ticker mention, date (StockMention.post_date mention)) in
      if pair_key \<in> processed_pairs
      then performance_loop history time_periods mentions performances processed_pairs
      else
        (case process_mention history time_periods mention of
           None \<Rightarrow>
             performance_loop history time_periods mentions performances
               (insert pair_key processed_pairs)
         | Some performance \<Rightarrow>
             performance_loop history time_periods mentions (performances @ [performance])
               (insert pair_key processed_pairs)))"

definition calculate_performance :: "history_provider \<Rightarrow> StockMention list \<Rightarrow> StockPerformance list" where
  "calculate_performance history mentions =
     performance_loop history TIME_PERIODS mentions [] {}"

subsection \<open>Vocabulary of the properties\<close>

definition mention_key :: "StockMention \<Rightarrow> string \<times> int" where
  "mention_key m = (StockMention.ticker m, date (StockMention.post_date m))"

definition performance_key :: "StockPerformance \<Rightarrow> string \<times> int" where
  "performance_key p = (StockPerformance.ticker p, date (StockPerformance.post_date p))"

definition first_mention :: "string \<times> int \<Rightarrow> StockMention list \<Rightarrow> StockMention option" where
  \<comment> \<open>the first mention of a (ticker, calendar date) pair in the input\<close>
  "first_mention k mentions = find (\<lambda>m. mention_key m = k) mentions"

definition mentions_of_pair :: "string \<times> int \<Rightarrow> StockMention list \<Rightarrow> StockMention list" where
  "mentions_of_pair k mentions = filter (\<lambda>m. mention_key m = k) mentions"

definition records_of_pair :: "string \<times> int \<Rightarrow> StockPerformance list \<Rightarrow> StockPerformance list" where
  "records_of_pair k performances = filter (\<lambda>p. performance_key p = k) performances"

definition fetched :: "history_provider \<Rightarrow> StockMention \<Rightarrow> price_series option" where
  \<comment> \<open>the frame requested for a mention: the window from one day before the post to 35
      days after it\<close>
  "fetched history m =
     get_stock_data history (StockMention.ticker m)
       (date (StockMention.post_date m) - 1) (date (StockMention.post_date m) + 35)"

definition dates_from :: "price_series \<Rightarrow> int \<Rightarrow> int set" where
  \<comment> \<open>the trading dates of a series that are on or after a day\<close>
  "dates_from stock_data day = set (filter (\<lambda>d. day \<le> d) (map fst stock_data))"

definition horizon_close :: "price_series \<Rightarrow> int \<Rightarrow> f64 option" where
  \<comment> \<open>the close a horizon with this target date is matched to: the close of the nearest
      trading date on or after the target, when that date is at most 5 days away\<close>
  "horizon_close stock_data target_date =
     (let later = dates_from stock_data target_date
      in if later \<noteq> {} \<and> Min later - target_date \<le> 5 then close_on stock_data (Min later)
         else None)"

definition performance_record :: "StockMention \<Rightarrow> price_series \<Rightarrow> f64 \<Rightarrow> StockPerformance" where
  \<comment> \<open>the record of a mention, its series and its anchor price: each horizon holds the
      close matched to its target date and the return on the anchor price, or nothing\<close>
  "performance_record m stock_data p0 =
     (let day = date (StockMention.post_date m) in
      \<lparr>ticker = StockMention.ticker m, post_date = StockMention.post_date m,
       price_at_post = p0,
       price_1d = horizon_close stock_data (day + 1),
       price_3d = horizon_close stock_data (day + 3),
       price_1w = horizon_close stock_data (day + 7),
       price_2w = horizon_close stock_data (day + 14),
       price_1m = horizon_close stock_data (day + 30),
       return_1d = map_option (\<lambda>c. return_pct c p0) (horizon_close stock_data (day + 1)),
       return_3d = map_option (\<lambda>c. return_pct c p0) (horizon_close stock_data (day + 3)),
       return_1w = map_option (\<lambda>c. return_pct c p0) (horizon_close stock_data (day + 7)),
       return_2w = map_option (\<lambda>c. return_pct c p0) (horizon_close stock_data (day + 14)),
       return_1m = map_option (\<lambda>c. return_pct c p0) (horizon_close stock_data (day + 30))\<rparr>)"

definition has_anchor :: "history_provider \<Rightarrow> StockMention \<Rightarrow> bool" where
  \<comment> \<open>the provider has rows for the mention, one of them dated on or after the post\<close>
  "has_anchor history m =
     (case fetched history m of
        None \<Rightarrow> False
      | Some stock_data \<Rightarrow> dates_from stock_data (date (StockMention.post_date m)) \<noteq> {})"

subsection \<open>Example data\<close>

text \<open>
  Day 738887 is 2 January 2024. Ticker XYZ trades on 2, 3 and 9 January and on
  1 February; GAP trades on the post's day, 7 days and 19 days later; ONE trades on the
  post's day only; the provider fails on ERR and has no rows for any other ticker.
\<close>

definition example_mention :: "string \<Rightarrow> string \<Rightarrow> nat \<Rightarrow> StockMention" where
  "example_mention t pid secs =
     \<lparr>StockMention.ticker = t, post_id = pid, post_title = ascii (''$'' @ t @ '' to the moon''),
      StockMention.post_date = \<lparr>date = 738887, time_of_day = secs\<rparr>, post_score = 10,
      post_url = ''https://reddit.com/r/pennystocks/'' @ pid, author = ''alice''\<rparr>"

definition xyz_series :: price_series where
  "xyz_series =
     [(738887, Finite 10), (738888, Finite (21 / 2)), (738894, Finite 12), (738917, Finite 9)]"

definition gap_series :: price_series where
  "gap_series = [(738887, Finite 10), (738894, Finite (23 / 2)), (738906, Finite 12)]"

definition one_series :: price_series where
  "one_series = [(738887, Finite 10)]"

definition window :: "price_series \<Rightarrow> int \<Rightarrow> int \<Rightarrow> price_series" where
  "window rows start_date end_date = filter (\<lambda>(d, c). start_date \<le> d \<and> d < end_date) rows"

definition example_history :: history_provider where
  "example_history t start_date end_date =
     (if t = ''XYZ'' then Inr (window xyz_series start_date end_date)
      else if t = ''GAP'' then Inr (window gap_series start_date end_date)
      else if t = ''ONE'' then Inr (window one_series start_date end_date)
      else if t = ''ERR'' then Inl ProviderError
      else Inr [])"

definition xyz_record :: StockPerformance where
  "xyz_record =
     \<lparr>ticker = ''XYZ'', post_date = \<lparr>date = 738887, time_of_day = 34200\<rparr>,
      price_at_post = Finite 10,
      price_1d = Some (Finite (21 / 2)), price_3d = Some (Finite 12),
      price_1w = Some (Finite 12), price_2w = None, price_1m = Some (Finite 9),
      return_1d = Some (Finite 5), return_3d = Some (Finite 20),
      return_1w = Some (Finite 20), return_2w = None, return_1m = Some (Finite (- 10))\<rparr>"

definition gap_record :: StockPerformance where
  "gap_record =
     \<lparr>ticker = ''GAP'', post_date = \<lparr>date = 738887, time_of_day = 34200\<rparr>,
      price_at_post = Finite 10,
      price_1d = None, price_3d = Some (Finite (23 / 2)),
      price_1w = Some (Finite (23 / 2)), price_2w = Some (Finite 12), price_1m = None,
      return_1d = None, return_3d = Some (Finite 15),
      return_1w = Some (Finite 15), return_2w = Some (Finite 20), return_1m = None\<rparr>"

definition one_record :: StockPerformance where
  "one_record =
     \<lparr>ticker = ''ONE'', post_date = \<lparr>date = 738887, time_of_day = 34200\<rparr>,
      price_at_post = Finite 10,
      price_1d = None, price_3d = None, price_1w = None, price_2w = None, price_1m = None,
      return_1d = None, return_3d = None, return_1w = None, return_2w = None,
      return_1m = None\<rparr>"




section \<open>Ticker extractor (ticker\_extractor.py)\<close>

text \<open>
  What the Python runtime supplies and the source does not hold is a parameter: the
  Unicode tables behind \<^verbatim>\<open>str.upper\<close> and behind the class \<^verbatim>\<open>\w\<close> that decides the
  boundary \<^verbatim>\<open>\b\<close>, the order in which a set of strings is iterated, and the offset of the
  host's local time from UTC. The class \<^verbatim>\<open>[A-Z]\<close> and the dollar sign are code points
  65 to 90 and 36 under every table.
\<close>

record python_runtime =
  str_upper :: "unicode \<Rightarrow> unicode"
  word_char :: "nat \<Rightarrow> bool"
  set_order :: "string list \<Rightarrow> string list"
  utc_offset :: "int \<Rightarrow> int"

definition is_upper :: "nat \<Rightarrow> bool" where
  "is_upper c \<longleftrightarrow> 65 \<le> c \<and> c \<le> 90"

definition dollar_sign :: nat where
  "dollar_sign = 36"

definition match_symbol :: "(nat \<Rightarrow> bool) \<Rightarrow> unicode \<Rightarrow> unicode option" where
  \<comment> \<open>\<^verbatim>\<open>([A-Z]{1,5})\b\<close> matched at the start of a text, the group it captures: the
      whole run of capitals, when it has 1 to 5 letters and the end of the text or a
      character outside \<^verbatim>\<open>\w\<close> follows it. A shorter part of the run never ends at a
      boundary.\<close>
  "match_symbol is_word rest =
     (let letters = takeWhile is_upper rest; after = dropWhile is_upper rest
      in if 1 \<le> length letters \<and> length letters \<le> 5 \<and>
            (case after of [] \<Rightarrow> True | c # cs \<Rightarrow> \<not> is_word c)
         then Some letters else None)"

function findall :: "(nat \<Rightarrow> bool) \<Rightarrow> unicode \<Rightarrow> unicode list" where
  \<comment> \<open>\<^verbatim>\<open>re.compile(r'\$([A-Z]{1,5})\b').findall\<close>: the groups of the matches found
      from left to right, each search resuming where the last match ended\<close>
  "findall is_word [] = []"
| "findall is_word (c # cs) =
     (if c = dollar_sign then
        (case match_symbol is_word cs of
           Some g \<Rightarrow> g # findall is_word (drop (length g) cs)
         | None \<Rightarrow> findall is_word cs)
      else findall is_word cs)"
  by pat_completeness auto
termination
  by (relation "measure (\<lambda>(is_word, u). length u)") auto

definition to_string :: "unicode \<Rightarrow> string" where
  \<comment> \<open>a captured group, all capitals, as an ASCII string\<close>
  "to_string u = map char_of u"

text \<open>
  The market-data provider is a parameter: \<open>ticker_info t\<close> is \<^verbatim>\<open>yf.Ticker(t).info\<close>, a
  dictionary given by its items, and \<open>ticker_history t\<close> is
  \<^verbatim>\<open>yf.Ticker(t).history(period="5d")\<close>; either can raise.
\<close>

record 'v market_provider =
  ticker_info :: "string \<Rightarrow> py_exception + (string \<times> 'v) list"
  ticker_history :: "string \<Rightarrow> py_exception + price_series"

definition dict_len :: "(string \<times> 'v) list \<Rightarrow> nat" where
  \<comment> \<open>\<^verbatim>\<open>len(info)\<close>: the number of keys\<close>
  "dict_len info = length (remdups (map fst info))"

definition validate_ticker :: "'v market_provider \<Rightarrow> string \<Rightarrow> bool" where
  "validate_ticker provider t =
     (case ticker_info provider t of
        Inl e \<Rightarrow> False
      | Inr info \<Rightarrow>
          if info = [] \<or> dict_len info \<le> 1 then False
          else
            (let required_fields = [''symbol'', ''longName'', ''regularMarketPrice''];
                 has_required = list_ex (\<lambda>field. field \<in> fst ` set info) required_fields
             in case ticker_history provider t of
                  Inl e \<Rightarrow> False
                | Inr hist \<Rightarrow>
                    (let has_price_data = (hist \<noteq> []) in has_required \<and> has_price_data)))"

fun validation_loop ::
  "(string \<Rightarrow> bool) \<Rightarrow> string list \<Rightarrow> string list \<times> string list \<Rightarrow> string list \<times> string list" where
  \<comment> \<open>the loop of lines 68 to 75 on the state \<open>(validated_tickers, calls)\<close>, where \<open>calls\<close>
      lists the tickers \<^verbatim>\<open>validate_ticker\<close> was called on\<close>
  "validation_loop validate [] st = st"
| "validation_loop validate (t # ts) (validated_tickers, calls) =
     validation_loop validate ts
       (if validate t then validated_tickers @ [t] else validated_tickers, calls @ [t])"

definition extract_tickers_from_text ::
  "python_runtime \<Rightarrow> (string \<Rightarrow> bool) \<Rightarrow> unicode \<Rightarrow> string list \<times> string list" where
  \<comment> \<open>the result and the validation calls made; \<^verbatim>\<open>list(set(...))\<close> lists the distinct
      elements in the order the runtime iterates the set\<close>
  "extract_tickers_from_text rt validate text =
     (let dollar_tickers = map to_string (findall (word_char rt) (str_upper rt text)) in
      if dollar_tickers = [] then ([], [])
      else
        (let unique_tickers = set_order rt (remdups dollar_tickers)
         in case validation_loop validate unique_tickers ([], []) of
              (validated_tickers, calls) \<Rightarrow> (set_order rt validated_tickers, calls)))"

definition has_dollar_symbol :: "(nat \<Rightarrow> bool) \<Rightarrow> unicode \<Rightarrow> bool" where
  \<comment> \<open>a text has a \<^verbatim>\<open>$SYMBOL\<close>-shaped part: a dollar sign, then 1 to 5 capitals, then
      the end of the text or a character that is not a word character\<close>
  "has_dollar_symbol is_word u \<longleftrightarrow>
     (\<exists>before symbol after.
        u = before @ [dollar_sign] @ symbol @ after \<and>
        1 \<le> length symbol \<and> length symbol \<le> 5 \<and> list_all is_upper symbol \<and>
        (after = [] \<or> \<not> is_word (hd after)))"

definition single_entry_provider :: "string market_provider" where
  \<comment> \<open>a provider whose metadata has the one entry \<^verbatim>\<open>symbol\<close>, with a day of history\<close>
  "single_entry_provider =
     \<lparr>ticker_info = (\<lambda>t. Inr [(''symbol'', t)]),
      ticker_history = (\<lambda>t. Inr [(738887, Finite 10)])\<rparr>"

definition example_provider :: "string market_provider" where
  "example_provider =
     \<lparr>ticker_info = (\<lambda>t. if t = ''ERR'' then Inl ProviderError
                         else if t = ''XYZ'' then Inr [(''symbol'', t), (''longName'', ''XYZ Corp'')]
                         else Inr [(''trailingPegRatio'', '''')]),
      ticker_history = (\<lambda>t. if t = ''XYZ'' then Inr [(738887, Finite 10)] else Inr [])\<rparr>"

definition latin_upper :: "nat \<Rightarrow> unicode" where
  \<comment> \<open>\<^verbatim>\<open>str.upper\<close> on one character of the examples: the ASCII letters, the accented
      letter U+00E9 and the sharp s U+00DF, which becomes two capitals\<close>
  "latin_upper c =
     (if 97 \<le> c \<and> c \<le> 122 then [c - 32]
      else if c = 233 then [201]
      else if c = 223 then [83, 83]
      else [c])"

definition latin_word :: "nat \<Rightarrow> bool" where
  "latin_word c \<longleftrightarrow>
     48 \<le> c \<and> c \<le> 57 \<or> 65 \<le> c \<and> c \<le> 90 \<or> c = 95 \<or> 97 \<le> c \<and> c \<le> 122 \<or>
     c = 201 \<or> c = 223 \<or> c = 233"

definition example_runtime :: python_runtime where
  \<comment> \<open>a runtime for the examples: the tables above, sets iterated in the order given, a
      host on UTC\<close>
  "example_runtime =
     \<lparr>str_upper = (\<lambda>u. concat (map latin_upper u)), word_char = latin_word,
      set_order = (\<lambda>xs. xs), utc_offset = (\<lambda>ts. 0)\<rparr>"

section \<open>Mention source (reddit\_scraper.py)\<close>

text \<open>
  The forum client is a parameter: the four listings of the subreddit, each giving the
  posts it yields. A post is what \<^verbatim>\<open>fetch_posts\<close> reads of a submission; its author is
  \<open>None\<close> when deleted, and its creation time is in whole epoch seconds.
  \<open>fromtimestamp\<close> gives the host's local time (day 719163 is 1 January 1970).
\<close>

record RedditPost =
  submission_id :: string
  title :: unicode
  selftext :: unicode
  created_utc :: int
  score :: int
  permalink :: string
  post_author :: "string option"

record Subreddit =
  hot_listing :: "int \<Rightarrow> RedditPost list"
  new_listing :: "int \<Rightarrow> RedditPost list"
  rising_listing :: "int \<Rightarrow> RedditPost list"
  top_listing :: "int \<Rightarrow> string \<Rightarrow> RedditPost list"

definition fromtimestamp :: "python_runtime \<Rightarrow> int \<Rightarrow> datetime" where
  "fromtimestamp rt ts =
     (let local_seconds = ts + utc_offset rt ts
      in \<lparr>date = 719163 + local_seconds div 86400,
          time_of_day = nat (local_seconds mod 86400)\<rparr>)"

definition mentions_of_post :: "python_runtime \<Rightarrow> RedditPost \<Rightarrow> string list \<Rightarrow> StockMention list" where
  \<comment> \<open>lines 65 to 77: one mention for each ticker of the post\<close>
  "mentions_of_post rt post tickers =
     map (\<lambda>t. \<lparr>StockMention.ticker = t, post_id = submission_id post, post_title = title post,
                StockMention.post_date = fromtimestamp rt (created_utc post),
                post_score = score post,
                post_url = ''https://reddit.com'' @ permalink post,
                author = (case post_author post of None \<Rightarrow> ''deleted'' | Some a \<Rightarrow> a)\<rparr>)
       tickers"

fun posts_loop ::
  "python_runtime \<Rightarrow> (string \<Rightarrow> bool) \<Rightarrow> bool \<Rightarrow> RedditPost list
     \<Rightarrow> StockMention list \<times> string list \<Rightarrow> StockMention list \<times> string list" where
  \<comment> \<open>the loop of lines 57 to 77 on the state \<open>(mentions, calls)\<close>\<close>
  "posts_loop rt validate use_title_only [] st = st"
| "posts_loop rt validate use_title_only (post # posts) (mentions, calls) =
     (let text_to_analyze =
            (if use_title_only then title post else title post @ ascii '' '' @ selftext post);
          (tickers, calls') = extract_tickers_from_text rt validate text_to_analyze
      in if tickers = []
         then posts_loop rt validate use_title_only posts (mentions, calls @ calls')
         else posts_loop rt validate use_title_only posts
                (mentions @ mentions_of_post rt post tickers, calls @ calls'))"

definition fetch_posts ::
  "python_runtime \<Rightarrow> Subreddit \<Rightarrow> (string \<Rightarrow> bool) \<Rightarrow> int \<Rightarrow> bool \<Rightarrow> string \<Rightarrow> string
     \<Rightarrow> (py_exception + StockMention list) \<times> string list" where
  \<comment> \<open>the result, an exception raised or the mentions returned, and the validation calls
      made while it ran\<close>
  "fetch_posts rt subreddit validate limit use_title_only sort_by time_filter =
     (case (if sort_by = ''hot'' then Inr (hot_listing subreddit limit)
            else if sort_by = ''new'' then Inr (new_listing subreddit limit)
            else if sort_by = ''rising'' then Inr (rising_listing subreddit limit)
            else if sort_by = ''top'' then Inr (top_listing subreddit limit time_filter)
            else Inl (ValueError (''Invalid sort option: '' @ sort_by))) of
        Inl e \<Rightarrow> (Inl e, [])
      | Inr posts \<Rightarrow>
          (case posts_loop rt validate use_title_only posts ([], []) of
             (mentions, calls) \<Rightarrow> (Inr mentions, calls)))"

definition example_post :: RedditPost where
  "example_post =
     \<lparr>submission_id = ''p1'', title = ascii ''$XYZ to the moon'', selftext = ascii ''buy $abc'',
      created_utc = 1704187800, score = 10, permalink = ''/r/pennystocks/p1'',
      post_author = Some ''alice''\<rparr>"

definition example_subreddit :: Subreddit where
  "example_subreddit =
     \<lparr>hot_listing = (\<lambda>limit. [example_post]), new_listing = (\<lambda>limit. [example_post]),
      rising_listing = (\<lambda>limit. []), top_listing = (\<lambda>limit time_filter. [example_post])\<rparr>"

section \<open>Reporting (visualizer.py)\<close>

text \<open>
  A row is the tuple of the 14 columns that \<^verbatim>\<open>analyze_profitability\<close> names, a NULL being
  \<open>None\<close>. In the frame a NULL of a return column is a NaN, so \<open>dropna\<close> drops both. The
  sum of \<^verbatim>\<open>mean()\<close> is numpy's pairwise sum, and the mean of the boolean series
  \<^verbatim>\<open>valid_data > 0\<close> is the count of its true entries divided by its length. The entries
  \<^verbatim>\<open>median_return\<close> and \<^verbatim>\<open>std_return\<close> of the statistics are not modelled.
\<close>

record performance_row =
  row_id :: int
  row_ticker :: string
  row_post_date :: string
  row_price_at_post :: "f64 option"
  row_price_1d :: "f64 option"
  row_price_3d :: "f64 option"
  row_price_1w :: "f64 option"
  row_price_2w :: "f64 option"
  row_price_1m :: "f64 option"
  row_return_1d :: "f64 option"
  row_return_3d :: "f64 option"
  row_return_1w :: "f64 option"
  row_return_2w :: "f64 option"
  row_return_1m :: "f64 option"

definition column :: "string \<Rightarrow> performance_row \<Rightarrow> f64 option" where
  \<comment> \<open>the entry of a row in the return column of this name\<close>
  "column name r =
     (if name = ''return_1d'' then row_return_1d r
      else if name = ''return_3d'' then row_return_3d r
      else if name = ''return_1w'' then row_return_1w r
      else if name = ''return_2w'' then row_return_2w r
      else if name = ''return_1m'' then row_return_1m r
      else None)"

fun dropna :: "f64 option list \<Rightarrow> f64 list" where
  "dropna [] = []"
| "dropna (None # xs) = dropna xs"
| "dropna (Some v # xs) = (if v = NaN then dropna xs else v # dropna xs)"

definition count_where :: "(f64 \<Rightarrow> bool) \<Rightarrow> f64 list \<Rightarrow> nat" where
  \<comment> \<open>\<^verbatim>\<open>(condition).sum()\<close>: the number of entries the condition holds for\<close>
  "count_where P xs = length (filter P xs)"

function lane_sums :: "f64 list \<Rightarrow> f64 list \<Rightarrow> f64 list" where
  \<comment> \<open>the 8 partial sums \<open>r\<close> of numpy's pairwise sum, each block of 8 values added to
      them lane by lane\<close>
  "lane_sums r xs =
     (if length xs < 8 then r
      else lane_sums (map (\<lambda>(a, b). fadd a b) (zip r (take 8 xs))) (drop 8 xs))"
  by pat_completeness auto
termination
  by (relation "measure (\<lambda>(r, xs). length xs)") auto

declare lane_sums.simps [simp del]

function pairwise_sum :: "f64 list \<Rightarrow> f64" where
  \<comment> \<open>\<^verbatim>\<open>valid_data.sum()\<close>, numpy's sum of a contiguous array: in sequence for fewer
      than 8 values, in 8 lanes that are then added in pairs for up to 128 values (the
      values after the last full block of 8 added in sequence), and by halves above that\<close>
  "pairwise_sum xs =
     (let n = length xs in
      if n < 8 then foldl fadd (Finite 0) xs
      else if n \<le> 128 then
        (let full = n - n mod 8;
             r = lane_sums (take 8 xs) (take (full - 8) (drop 8 xs));
             res = fadd (fadd (fadd (r ! 0) (r ! 1)) (fadd (r ! 2) (r ! 3)))
                     (fadd (fadd (r ! 4) (r ! 5)) (fadd (r ! 6) (r ! 7)))
         in foldl fadd res (drop full xs))
      else
        (let n2 = n div 2 - (n div 2) mod 8
         in fadd (pairwise_sum (take n2 xs)) (pairwise_sum (drop n2 xs))))"
  by pat_completeness auto
termination
  by (relation "measure length") auto

declare pairwise_sum.simps [simp del]

definition fmean :: "f64 list \<Rightarrow> f64" where
  "fmean xs = fdiv (pairwise_sum xs) (of_count (length xs))"

definition fmax :: "f64 list \<Rightarrow> f64" where
  "fmax xs = foldl (\<lambda>a b. if flt a b then b else a) (hd xs) (tl xs)"

definition fmin :: "f64 list \<Rightarrow> f64" where
  "fmin xs = foldl (\<lambda>a b. if flt b a then b else a) (hd xs) (tl xs)"

record HorizonStats =
  count :: nat
  mean_return :: f64
  positive_returns :: nat
  negative_returns :: nat
  win_rate :: f64
  best_return :: f64
  worst_return :: f64
  returns_over_10pct :: nat
  returns_over_25pct :: nat
  returns_under_minus10pct :: nat

definition horizon_stats :: "f64 list \<Rightarrow> HorizonStats" where
  \<comment> \<open>the dictionary of lines 35 to 48, for a non-empty \<^verbatim>\<open>valid_data\<close>\<close>
  "horizon_stats valid_data =
     \<lparr>count = length valid_data,
      mean_return = fmean valid_data,
      positive_returns = count_where (\<lambda>v. fgt v (Finite 0)) valid_data,
      negative_returns = count_where (\<lambda>v. flt v (Finite 0)) valid_data,
      win_rate =
        fmul (fdiv (of_count (count_where (\<lambda>v. fgt v (Finite 0)) valid_data))
                (of_count (length valid_data)))
          (Finite 100),
      best_return = fmax valid_data,
      worst_return = fmin valid_data,
      returns_over_10pct = count_where (\<lambda>v. fgt v (Finite 10)) valid_data,
      returns_over_25pct = count_where (\<lambda>v. fgt v (Finite 25)) valid_data,
      returns_under_minus10pct = count_where (\<lambda>v. flt v (Finite (- 10))) valid_data\<rparr>"

fun periods_loop :: "performance_row list \<Rightarrow> string list \<Rightarrow> (string \<times> HorizonStats) list" where
  \<comment> \<open>the loop of lines 30 to 48: the entries of \<^verbatim>\<open>results['time_periods']\<close> in the
      order they are added\<close>
  "periods_loop data [] = []"
| "periods_loop data (period # periods) =
     (let return_col = ''return_'' @ period;
          valid_data = dropna (map (column return_col) data)
      in if 0 < length valid_data
         then (period, horizon_stats valid_data) # periods_loop data periods
         else periods_loop data periods)"

record Profitability =
  total_stocks_analyzed :: nat
  time_periods :: "(string \<times> HorizonStats) list"

definition analyze_profitability :: "performance_row list \<Rightarrow> string + Profitability" where
  \<comment> \<open>\<open>Inl\<close> is the dictionary with the one key \<^verbatim>\<open>error\<close>\<close>
  "analyze_profitability data =
     (if data = [] then Inl ''No performance data available''
      else Inr \<lparr>total_stocks_analyzed = length data,
                time_periods = periods_loop data [''1d'', ''3d'', ''1w'', ''2w'', ''1m'']\<rparr>)"

definition period_stats :: "string + Profitability \<Rightarrow> string \<Rightarrow> HorizonStats option" where
  \<comment> \<open>\<^verbatim>\<open>results['time_periods'][period]\<close>, when the results have that entry\<close>
  "period_stats results period =
     (case results of Inl e \<Rightarrow> None | Inr r \<Rightarrow> map_of (time_periods r) period)"

definition example_row :: "int \<Rightarrow> f64 option \<Rightarrow> performance_row" where
  "example_row i r =
     \<lparr>row_id = i, row_ticker = ''XYZ'', row_post_date = ''2024-01-02T09:30:00'',
      row_price_at_post = Some (Finite 10),
      row_price_1d = None, row_price_3d = None, row_price_1w = Some (Finite 12),
      row_price_2w = None, row_price_1m = None,
      row_return_1d = r, row_return_3d = None, row_return_1w = Some (Finite 20),
      row_return_2w = None, row_return_1m = None\<rparr>"

definition example_rows :: "performance_row list" where
  "example_rows =
     [example_row 1 (Some (Finite 5)), example_row 2 (Some (Finite (- 5))),
      example_row 3 None, example_row 4 (Some (Finite 15)),
      example_row 5 (Some (Finite (- 15))), example_row 6 (Some (Finite 25))]"

section \<open>Properties of the performance calculator\<close>

subsection \<open>The scans over the trading dates\<close>

lemma closest_scan_Some:
  "t \<le> c \<Longrightarrow> closest_scan t ds (Some c, Some (c - t)) =
     (Some (Min (insert c (set (filter (\<lambda>d. t \<le> d) ds)))),
      Some (Min (insert c (set (filter (\<lambda>d. t \<le> d) ds))) - t))"
proof (induction ds arbitrary: c)
  case Nil
  then show ?case by simp
next
  case (Cons x ds)
  let ?S = "set (filter (\<lambda>d. t \<le> d) ds)"
  have fin: "finite ?S" by simp
  show ?case
  proof (cases "t \<le> x")
    case False
    then show ?thesis using Cons by simp
  next
    case True
    show ?thesis
    proof (cases "x < c")
      case True
      have le: "Min (insert x ?S) \<le> x" using fin by (intro Min_le) auto
      have "Min (insert c (insert x ?S)) = min c (Min (insert x ?S))"
        using fin by (intro Min_insert) auto
      moreover have "min c (Min (insert x ?S)) = Min (insert x ?S)"
        using le True by (intro min_absorb2) linarith
      ultimately have "Min (insert c (insert x ?S)) = Min (insert x ?S)"
        by (rule trans)
      then show ?thesis using \<open>t \<le> x\<close> True Cons.IH[of x] by simp
    next
      case False
      have le: "Min (insert c ?S) \<le> c" using fin by (intro Min_le) auto
      have "Min (insert x (insert c ?S)) = min x (Min (insert c ?S))"
        using fin by (intro Min_insert) auto
      moreover have "min x (Min (insert c ?S)) = Min (insert c ?S)"
        using le False by (intro min_absorb2) linarith
      ultimately have "Min (insert x (insert c ?S)) = Min (insert c ?S)"
        by (rule trans)
      then show ?thesis using \<open>t \<le> x\<close> False Cons by (simp add: insert_commute)
    qed
  qed
qed

lemma closest_scan_None:
  "closest_scan t ds (None, None) =
     (if filter (\<lambda>d. t \<le> d) ds = [] then (None, None)
      else (Some (Min (set (filter (\<lambda>d. t \<le> d) ds))),
            Some (Min (set (filter (\<lambda>d. t \<le> d) ds)) - t)))"
proof (induction ds)
  case Nil
  then show ?case by simp
next
  case (Cons x ds)
  show ?case
  proof (cases "t \<le> x")
    case True
    then show ?thesis using closest_scan_Some[of t x ds] by simp
  next
    case False
    then show ?thesis using Cons by simp
  qed
qed

lemma close_on_Some: "d \<in> fst ` set rows \<Longrightarrow> \<exists>c. close_on rows d = Some c \<and> (d, c) \<in> set rows"
  by (induction rows) force+

lemma find_post_price_date_None:
  "find_post_price_date ds day = None \<longleftrightarrow> filter (\<lambda>d. day \<le> d) ds = []"
  by (induction ds) auto



lemma dates_from_mem: "d \<in> dates_from data t \<longleftrightarrow> d \<in> fst ` set data \<and> t \<le> d"
  by (auto simp: dates_from_def)

lemma closest_scan_dates_from:
  "closest_scan t (map fst data) (None, None) =
     (if dates_from data t = {} then (None, None)
      else (Some (Min (dates_from data t)), Some (Min (dates_from data t) - t)))"
  unfolding dates_from_def closest_scan_None by (simp only: set_empty)

lemma horizon_step_eq:
  "horizon_step data day p0 perf (days, ra, pa) =
     Inr (case horizon_close data (day + days) of
            None \<Rightarrow> perf
          | Some c \<Rightarrow> setattr (setattr perf ra (return_pct c p0)) pa c)"
proof (cases "dates_from data (day + days) = {}")
  case True
  then show ?thesis
    by (simp add: horizon_step_def horizon_close_def closest_scan_dates_from)
next
  case False
  let ?m = "Min (dates_from data (day + days))"
  have "?m \<in> dates_from data (day + days)"
    using False by (intro Min_in) (auto simp: dates_from_def)
  then obtain c where c: "close_on data ?m = Some c"
    using close_on_Some[of ?m data] by (auto simp: dates_from_mem)
  show ?thesis
    using c False
    by (simp add: horizon_step_def horizon_close_def closest_scan_dates_from Let_def)
qed

lemma horizon_loop_TIME_PERIODS:
  "horizon_loop data (date (StockMention.post_date m)) p0
     (new_StockPerformance (StockMention.ticker m) (StockMention.post_date m) p0) TIME_PERIODS =
   Inr (performance_record m data p0)"
  by (simp add: TIME_PERIODS_def horizon_step_eq new_StockPerformance_def setattr_def
      performance_record_def split: option.split)

lemma find_post_price_date_Some:
  "find_post_price_date ds day = Some a \<Longrightarrow> a \<in> set ds \<and> day \<le> a"
  by (induction ds) (auto split: if_splits)

lemma find_post_price_date_dates_from:
  "find_post_price_date (map fst data) day = None \<longleftrightarrow> dates_from data day = {}"
  unfolding dates_from_def find_post_price_date_None by (simp only: set_empty)

lemma analyze_mention_eq:
  "analyze_mention TIME_PERIODS data m =
     (case find_post_price_date (map fst data) (date (StockMention.post_date m)) of
        None \<Rightarrow> None
      | Some a \<Rightarrow> map_option (performance_record m data) (close_on data a))"
  by (simp add: analyze_mention_def horizon_loop_TIME_PERIODS split: option.split)

lemma process_mention_eq:
  "process_mention history TIME_PERIODS m =
     (case fetched history m of
        None \<Rightarrow> None
      | Some data \<Rightarrow> analyze_mention TIME_PERIODS data m)"
  by (simp add: process_mention_def fetched_def)

lemma process_mention_None:
  assumes "fetched history m = None \<or>
     (\<exists>data. fetched history m = Some data \<and> dates_from data (date (StockMention.post_date m)) = {})"
  shows "process_mention history TIME_PERIODS m = None"
  using assms
  by (auto simp: process_mention_eq analyze_mention_eq find_post_price_date_dates_from[symmetric])

lemma process_mention_Some:
  assumes "fetched history m = Some data"
    and "dates_from data (date (StockMention.post_date m)) \<noteq> {}"
  shows "\<exists>a p0. find_post_price_date (map fst data) (date (StockMention.post_date m)) = Some a
           \<and> a \<in> dates_from data (date (StockMention.post_date m))
           \<and> close_on data a = Some p0 \<and> (a, p0) \<in> set data
           \<and> process_mention history TIME_PERIODS m = Some (performance_record m data p0)"
proof -
  let ?day = "date (StockMention.post_date m)"
  obtain a where a: "find_post_price_date (map fst data) ?day = Some a"
    using assms(2) find_post_price_date_dates_from[of data ?day] by auto
  then have mem: "a \<in> dates_from data ?day"
    using find_post_price_date_Some[OF a] by (auto simp: dates_from_mem)
  then obtain p0 where p0: "close_on data a = Some p0" "(a, p0) \<in> set data"
    using close_on_Some[of a data] by (auto simp: dates_from_mem)
  show ?thesis
    using a mem p0 assms(1) by (simp add: process_mention_eq analyze_mention_eq)
qed

lemma process_mention_cases:
  assumes "process_mention history TIME_PERIODS m = Some p"
  shows "\<exists>data a p0. fetched history m = Some data
           \<and> find_post_price_date (map fst data) (date (StockMention.post_date m)) = Some a
           \<and> a \<in> dates_from data (date (StockMention.post_date m))
           \<and> close_on data a = Some p0 \<and> (a, p0) \<in> set data
           \<and> p = performance_record m data p0"
proof -
  obtain data where d: "fetched history m = Some data"
    using assms by (auto simp: process_mention_eq split: option.splits)
  have "dates_from data (date (StockMention.post_date m)) \<noteq> {}"
    using assms d process_mention_None[of history m] by auto
  from process_mention_Some[OF d this] assms d show ?thesis by auto
qed

lemma performance_key_record: "performance_key (performance_record m data p0) = mention_key m"
  by (simp add: performance_key_def performance_record_def mention_key_def Let_def)

lemma process_mention_key:
  "process_mention history TIME_PERIODS m = Some p \<Longrightarrow> performance_key p = mention_key m"
  using process_mention_cases[of history m p] by (auto simp: performance_key_record)

lemma performance_loop_records:
  "records_of_pair k (performance_loop history TIME_PERIODS ms perfs seen) =
     records_of_pair k perfs @
     (if k \<in> seen then []
      else case first_mention k ms of
             None \<Rightarrow> []
           | Some m \<Rightarrow> (case process_mention history TIME_PERIODS m of
                          None \<Rightarrow> [] | Some p \<Rightarrow> [p]))"
proof (induction ms arbitrary: perfs seen)
  case Nil
  then show ?case by (simp add: first_mention_def)
next
  case (Cons m ms)
  have key: "(StockMention.ticker m, date (StockMention.post_date m)) = mention_key m"
    by (simp add: mention_key_def)
  show ?case
  proof (cases "mention_key m \<in> seen")
    case True
    then show ?thesis using Cons.IH[of perfs seen]
      by (auto simp: key first_mention_def)
  next
    case False
    show ?thesis
    proof (cases "process_mention history TIME_PERIODS m")
      case None
      then show ?thesis using False Cons.IH[of perfs "insert (mention_key m) seen"]
        by (auto simp: key first_mention_def)
    next
      case (Some p)
      then show ?thesis
        using False Cons.IH[of "perfs @ [p]" "insert (mention_key m) seen"]
          process_mention_key[OF Some]
        by (auto simp: key first_mention_def records_of_pair_def)
    qed
  qed
qed

lemma calculate_performance_records:
  "records_of_pair k (calculate_performance history ms) =
     (case first_mention k ms of
        None \<Rightarrow> []
      | Some m \<Rightarrow> (case process_mention history TIME_PERIODS m of
                     None \<Rightarrow> [] | Some p \<Rightarrow> [p]))"
proof -
  have "records_of_pair k [] = []" by (simp add: records_of_pair_def)
  then show ?thesis
    unfolding calculate_performance_def performance_loop_records by simp
qed

lemma first_mention_Some:
  "first_mention k ms = Some m \<Longrightarrow> m \<in> set ms \<and> mention_key m = k"
  by (auto simp: first_mention_def find_Some_iff)

lemma calculate_performance_mem:
  assumes "p \<in> set (calculate_performance history ms)"
  shows "\<exists>m. first_mention (performance_key p) ms = Some m
           \<and> process_mention history TIME_PERIODS m = Some p"
proof -
  have "p \<in> set (records_of_pair (performance_key p) (calculate_performance history ms))"
    using assms by (simp add: records_of_pair_def)
  then show ?thesis
    unfolding calculate_performance_records
    by (cases "first_mention (performance_key p) ms";
        cases "process_mention history TIME_PERIODS (the (first_mention (performance_key p) ms))")
       auto
qed

subsection \<open>Evaluating the arithmetic and the examples\<close>

lemma bit_length_numeral:
  "bit_length (numeral (Num.Bit0 n)) = Suc (bit_length (numeral n))"
  "bit_length (numeral (Num.Bit1 n)) = Suc (bit_length (numeral n))"
  "bit_length (numeral Num.One) = 1" "bit_length 0 = 0" "bit_length 1 = 1" "bit_length (Suc 0) = 1"
  by (subst bit_length.simps, simp add: numeral_Bit0_div_2 numeral_Bit1_div_2)+

lemmas f64_eval = round64_def ilog2_def pow2_def round_half_even_def bit_length_numeral Let_def
  return_pct_def fsub_def of_count_def

lemma return_pct_15: "return_pct (Finite (23 / 2)) (Finite 10) = Finite 15"
  by (simp add: f64_eval)

lemma return_pct_20: "return_pct (Finite 12) (Finite 10) = Finite 20"
  by (simp add: f64_eval)

lemma getattr_performance_record:
  assumes "(days, ra, pa) \<in> set TIME_PERIODS"
  shows "getattr (performance_record m data p0) pa =
           horizon_close data (date (StockMention.post_date m) + days)"
    and "getattr (performance_record m data p0) ra =
           map_option (\<lambda>c. return_pct c p0)
             (horizon_close data (date (StockMention.post_date m) + days))"
proof -
  have "(days, ra, pa) = (1, ''return_1d'', ''price_1d'') \<or>
        (days, ra, pa) = (3, ''return_3d'', ''price_3d'') \<or>
        (days, ra, pa) = (7, ''return_1w'', ''price_1w'') \<or>
        (days, ra, pa) = (14, ''return_2w'', ''price_2w'') \<or>
        (days, ra, pa) = (30, ''return_1m'', ''price_1m'')"
    using assms by (simp add: TIME_PERIODS_def)
  then show "getattr (performance_record m data p0) pa =
           horizon_close data (date (StockMention.post_date m) + days)"
    and "getattr (performance_record m data p0) ra =
           map_option (\<lambda>c. return_pct c p0)
             (horizon_close data (date (StockMention.post_date m) + days))"
    by (elim disjE; simp add: getattr_def performance_record_def Let_def)+
qed

lemma horizon_close_Some:
  assumes "dates_from data t \<noteq> {}"
  shows "Min (dates_from data t) \<in> fst ` set data" "t \<le> Min (dates_from data t)"
    "close_on data (Min (dates_from data t)) \<noteq> None"
proof -
  have "Min (dates_from data t) \<in> dates_from data t"
    using assms by (intro Min_in) (auto simp: dates_from_def)
  then show "Min (dates_from data t) \<in> fst ` set data" "t \<le> Min (dates_from data t)"
    by (auto simp: dates_from_mem)
  then show "close_on data (Min (dates_from data t)) \<noteq> None"
    using close_on_Some[of "Min (dates_from data t)" data] by auto
qed

lemma calculate_performance_single:
  "calculate_performance h [m] =
     (case process_mention h TIME_PERIODS m of None \<Rightarrow> [] | Some p \<Rightarrow> [p])"
  by (simp add: calculate_performance_def split: option.split)

lemma fetched_example:
  "fetched example_history (example_mention ''XYZ'' pid secs) = Some xyz_series"
  "fetched example_history (example_mention ''GAP'' pid secs) = Some gap_series"
  "fetched example_history (example_mention ''ONE'' pid secs) = Some one_series"
  "fetched example_history (example_mention ''ERR'' pid secs) = None"
  "fetched example_history (example_mention ''NONE'' pid secs) = None"
  by (simp_all add: fetched_def get_stock_data_def example_history_def example_mention_def
      window_def xyz_series_def gap_series_def one_series_def)

lemma horizon_close_gap:
  "horizon_close gap_series (738887 + 1) = None"
  "horizon_close gap_series (738887 + 3) = Some (Finite (23 / 2))"
  "horizon_close gap_series (738887 + 7) = Some (Finite (23 / 2))"
  "horizon_close gap_series (738887 + 14) = Some (Finite 12)"
  "horizon_close gap_series (738887 + 30) = None"
  by (simp_all add: horizon_close_def dates_from_def gap_series_def)

lemma process_gap:
  "process_mention example_history TIME_PERIODS (example_mention ''GAP'' pid 34200) =
     Some gap_record"
proof -
  have day: "date (StockMention.post_date (example_mention ''GAP'' pid 34200)) = 738887"
    by (simp add: example_mention_def)
  have "find_post_price_date (map fst gap_series) 738887 = Some 738887"
    "close_on gap_series 738887 = Some (Finite 10)"
    by (simp_all add: gap_series_def)
  moreover have "performance_record (example_mention ''GAP'' pid 34200) gap_series (Finite 10)
      = gap_record"
    unfolding performance_record_def day Let_def horizon_close_gap
    by (simp add: gap_record_def example_mention_def return_pct_15 return_pct_20)
  ultimately show ?thesis
    by (simp add: process_mention_eq analyze_mention_eq fetched_example day)
qed

lemma horizon_close_one:
  "horizon_close one_series (738887 + 1) = None"
  "horizon_close one_series (738887 + 3) = None"
  "horizon_close one_series (738887 + 7) = None"
  "horizon_close one_series (738887 + 14) = None"
  "horizon_close one_series (738887 + 30) = None"
  by (simp_all add: horizon_close_def dates_from_def one_series_def)

lemma process_one:
  "process_mention example_history TIME_PERIODS (example_mention ''ONE'' pid 34200) =
     Some one_record"
proof -
  have day: "date (StockMention.post_date (example_mention ''ONE'' pid 34200)) = 738887"
    by (simp add: example_mention_def)
  have "find_post_price_date (map fst one_series) 738887 = Some 738887"
    "close_on one_series 738887 = Some (Finite 10)"
    by (simp_all add: one_series_def)
  moreover have "performance_record (example_mention ''ONE'' pid 34200) one_series (Finite 10)
      = one_record"
    unfolding performance_record_def day Let_def horizon_close_one
    by (simp add: one_record_def example_mention_def)
  ultimately show ?thesis
    by (simp add: process_mention_eq analyze_mention_eq fetched_example day)
qed

lemma gap_output:
  "calculate_performance example_history [example_mention ''GAP'' ''p1'' 34200] = [gap_record]"
  by (simp add: calculate_performance_single process_gap)

lemma period_cases:
  assumes "(days, ra, pa) \<in> set TIME_PERIODS"
  shows "(days, ra, pa) = (1, ''return_1d'', ''price_1d'') \<or>
        (days, ra, pa) = (3, ''return_3d'', ''price_3d'') \<or>
        (days, ra, pa) = (7, ''return_1w'', ''price_1w'') \<or>
        (days, ra, pa) = (14, ''return_2w'', ''price_2w'') \<or>
        (days, ra, pa) = (30, ''return_1m'', ''price_1m'')"
  using assms by (simp add: TIME_PERIODS_def)

lemma mentions_of_pair_first:
  assumes "mentions_of_pair k mentions \<noteq> []"
  shows "\<exists>m. first_mention k mentions = Some m"
proof -
  obtain m where "m \<in> set mentions" "mention_key m = k"
    using assms by (auto simp: mentions_of_pair_def filter_empty_conv)
  then show ?thesis
    unfolding first_mention_def by (cases "find (\<lambda>m. mention_key m = k) mentions") (auto simp: find_None_iff)
qed

lemma records_of_first_mention:
  assumes "first_mention k mentions = Some m"
  shows "if has_anchor history m
         then \<exists>data p0. fetched history m = Some data \<and>
                records_of_pair k (calculate_performance history mentions)
                  = [performance_record m data p0] \<and>
                find_post_price_date (map fst data) (date (StockMention.post_date m)) \<noteq> None \<and>
                map_option (close_on data)
                  (find_post_price_date (map fst data) (date (StockMention.post_date m)))
                  = Some (Some p0)
         else records_of_pair k (calculate_performance history mentions) = []"
proof (cases "has_anchor history m")
  case True
  then obtain data where d: "fetched history m = Some data"
    "dates_from data (date (StockMention.post_date m)) \<noteq> {}"
    by (auto simp: has_anchor_def split: option.splits)
  from process_mention_Some[OF d] show ?thesis
    using True d(1) assms by (auto simp: calculate_performance_records)
next
  case False
  then have "process_mention history TIME_PERIODS m = None"
    by (intro process_mention_None) (auto simp: has_anchor_def split: option.splits)
  then show ?thesis using False assms by (simp add: calculate_performance_records)
qed

lemma first_mention_example:
  "first_mention (t, 738887) [example_mention t pid secs, example_mention t pid' secs']
     = Some (example_mention t pid secs)"
  "first_mention (t, 738887) [example_mention t pid secs] = Some (example_mention t pid secs)"
  by (simp_all add: first_mention_def mention_key_def example_mention_def)

lemma has_anchor_example:
  "has_anchor example_history (example_mention ''XYZ'' pid secs)"
  "has_anchor example_history (example_mention ''ONE'' pid secs)"
  "\<not> has_anchor example_history (example_mention ''NONE'' pid secs)"
  by (simp_all add: has_anchor_def fetched_example)
     (simp_all add: dates_from_def example_mention_def xyz_series_def one_series_def)



text \<open>
  The scenario of the specification: ticker XYZ, posted on 2 January 2024, closes of 10.0,
  10.5, 12.0 and 9.0 on 2, 3 and 9 January and 1 February. The anchor price is 10, the
  returns are 5, 20, 20 and -10 percent, and the two-week horizon (target 16 January, next
  trading date 16 days later) is left unset. The second mention of the day and the ticker
  without data add no record.
\<close>

lemma return_pct_xyz:
  "return_pct (Finite (21 / 2)) (Finite 10) = Finite 5"
  "return_pct (Finite 9) (Finite 10) = Finite (- 10)"
  by (simp_all add: f64_eval)

lemma horizon_close_xyz:
  "horizon_close xyz_series (738887 + 1) = Some (Finite (21 / 2))"
  "horizon_close xyz_series (738887 + 3) = Some (Finite 12)"
  "horizon_close xyz_series (738887 + 7) = Some (Finite 12)"
  "horizon_close xyz_series (738887 + 14) = None"
  "horizon_close xyz_series (738887 + 30) = Some (Finite 9)"
  by (simp_all add: horizon_close_def dates_from_def xyz_series_def)

lemma process_xyz:
  "process_mention example_history TIME_PERIODS (example_mention ''XYZ'' pid 34200) =
     Some xyz_record"
proof -
  have day: "date (StockMention.post_date (example_mention ''XYZ'' pid 34200)) = 738887"
    by (simp add: example_mention_def)
  have "find_post_price_date (map fst xyz_series) 738887 = Some 738887"
    "close_on xyz_series 738887 = Some (Finite 10)"
    by (simp_all add: xyz_series_def)
  moreover have "performance_record (example_mention ''XYZ'' pid 34200) xyz_series (Finite 10)
      = xyz_record"
    unfolding performance_record_def day Let_def horizon_close_xyz
    by (simp add: xyz_record_def example_mention_def return_pct_xyz return_pct_20)
  ultimately show ?thesis
    by (simp add: process_mention_eq analyze_mention_eq fetched_example day)
qed

lemma xyz_output:
  "calculate_performance example_history
     [example_mention ''XYZ'' ''p1'' 34200, example_mention ''XYZ'' ''p2'' 72000,
      example_mention ''NONE'' ''p3'' 34200]
   = [xyz_record]"
proof -
  have "process_mention example_history TIME_PERIODS (example_mention ''NONE'' ''p3'' 34200) = None"
    by (intro process_mention_None) (simp add: fetched_example)
  then show ?thesis
    by (simp add: calculate_performance_def process_xyz)
       (simp add: example_mention_def)
qed

section \<open>Properties of the ticker extractor and the mention source\<close>

lemma match_symbol_Some:
  assumes "match_symbol w rest = Some g"
  shows "rest = g @ dropWhile is_upper rest" "1 \<le> length g" "length g \<le> 5"
    "list_all is_upper g"
    "dropWhile is_upper rest = [] \<or> \<not> w (hd (dropWhile is_upper rest))"
proof -
  have g: "g = takeWhile is_upper rest"
    using assms by (auto simp: match_symbol_def Let_def split: if_splits)
  show "rest = g @ dropWhile is_upper rest" by (simp add: g)
  show "1 \<le> length g" "length g \<le> 5"
    using assms by (auto simp: match_symbol_def Let_def g split: if_splits)
  show "list_all is_upper g"
    unfolding g list_all_iff by (auto dest: set_takeWhileD)
  show "dropWhile is_upper rest = [] \<or> \<not> w (hd (dropWhile is_upper rest))"
    using assms by (auto simp: match_symbol_def Let_def split: if_splits list.splits)
qed

lemma match_symbol_append:
  assumes "1 \<le> length symbol" "length symbol \<le> 5" "list_all is_upper symbol"
    and "after = [] \<or> \<not> w (hd after)"
    and "\<And>c. is_upper c \<Longrightarrow> w c"
  shows "match_symbol w (symbol @ after) = Some symbol"
proof -
  have nu: "after = [] \<or> \<not> is_upper (hd after)"
    using assms(4,5) by blast
  have all: "\<forall>c \<in> set symbol. is_upper c" using assms(3) by (simp add: list_all_iff)
  have tw: "takeWhile is_upper (symbol @ after) = symbol"
  proof (cases after)
    case Nil
    then show ?thesis using all by simp
  next
    case (Cons a as)
    then show ?thesis using all nu by (simp add: takeWhile_append2)
  qed
  have dw: "dropWhile is_upper (symbol @ after) = after"
  proof (cases after)
    case Nil
    then show ?thesis using all by simp
  next
    case (Cons a as)
    then show ?thesis using all nu by (simp add: dropWhile_append2)
  qed
  show ?thesis
    using assms(1,2,4) unfolding match_symbol_def tw dw Let_def
    by (cases after) auto
qed

lemma findall_has_dollar_symbol: "findall w u \<noteq> [] \<Longrightarrow> has_dollar_symbol w u"
proof (induction w u rule: findall.induct)
  case (1 w)
  then show ?case by simp
next
  case (2 w c cs)
  have ext: "has_dollar_symbol w cs \<Longrightarrow> has_dollar_symbol w (c # cs)"
  proof -
    assume "has_dollar_symbol w cs"
    then obtain b s a where "cs = b @ [dollar_sign] @ s @ a" "1 \<le> length s" "length s \<le> 5"
      "list_all is_upper s" "a = [] \<or> \<not> w (hd a)"
      unfolding has_dollar_symbol_def by blast
    then have "c # cs = (c # b) @ [dollar_sign] @ s @ a" by simp
    then show ?thesis
      unfolding has_dollar_symbol_def
      using \<open>1 \<le> length s\<close> \<open>length s \<le> 5\<close> \<open>list_all is_upper s\<close> \<open>a = [] \<or> \<not> w (hd a)\<close>
      by blast
  qed
  show ?case
  proof (cases "c = dollar_sign")
    case False
    then show ?thesis using 2 ext by simp
  next
    case True
    show ?thesis
    proof (cases "match_symbol w cs")
      case None
      then show ?thesis using True 2 ext by simp
    next
      case (Some g)
      from match_symbol_Some[OF Some]
      have "c # cs = [] @ [dollar_sign] @ g @ dropWhile is_upper cs"
        "1 \<le> length g" "length g \<le> 5" "list_all is_upper g"
        "dropWhile is_upper cs = [] \<or> \<not> w (hd (dropWhile is_upper cs))"
        using True by auto
      then show ?thesis unfolding has_dollar_symbol_def by blast
    qed
  qed
qed

lemma has_dollar_symbol_findall:
  assumes "has_dollar_symbol w u" and up: "\<And>c. is_upper c \<Longrightarrow> w c"
  shows "findall w u \<noteq> []"
proof -
  obtain b s a where u: "u = b @ [dollar_sign] @ s @ a" and s: "1 \<le> length s" "length s \<le> 5"
      "list_all is_upper s" "a = [] \<or> \<not> w (hd a)"
    using assms(1) unfolding has_dollar_symbol_def by blast
  have "findall w (b @ [dollar_sign] @ s @ a) \<noteq> []"
  proof (induction b)
    case Nil
    then show ?case using match_symbol_append[of s a w] s up by simp
  next
    case (Cons c b)
    then show ?case by (cases "match_symbol w (b @ [dollar_sign] @ s @ a)") auto
  qed
  then show ?thesis using u by simp
qed

lemma is_upper_latin_word: "is_upper c \<Longrightarrow> latin_word c"
  by (auto simp: is_upper_def latin_word_def)

lemmas extractor_eval = extract_tickers_from_text_def example_runtime_def latin_upper_def
  latin_word_def match_symbol_def is_upper_def dollar_sign_def ascii_def to_string_def
  validate_ticker_def example_provider_def dict_len_def Let_def char_of_def bit_Suc_0_iff

lemma upper_example:
  "str_upper example_runtime (ascii ''$5 for $abcdefg or $x_y or $abc'' @ [233]) =
     ascii ''$5 FOR $ABCDEFG OR $X_Y OR $ABC'' @ [201]"
  by (simp add: example_runtime_def latin_upper_def ascii_def)

lemma findall_example:
  "findall latin_word (ascii ''$5 FOR $ABCDEFG OR $X_Y OR $ABC'' @ [201]) = []"
  by (simp add: latin_word_def match_symbol_def is_upper_def dollar_sign_def ascii_def)

lemma extract_example:
  "extract_tickers_from_text example_runtime (validate_ticker example_provider)
     (ascii ''$xyz and $ERR, not $toolong'') = ([''XYZ''], [''XYZ'', ''ERR''])"
  by (simp add: extractor_eval)

text \<open>
  Upper-casing can lengthen a text: the sharp s after a dollar sign becomes two capitals,
  a candidate that is extracted and sent to validation.
\<close>

lemma extract_sharp_s:
  "extract_tickers_from_text example_runtime (validate_ticker example_provider)
     (ascii ''$'' @ [223]) = ([], [''SS''])"
  by (simp add: extractor_eval)

lemma fetch_example:
  "fetch_posts example_runtime example_subreddit (validate_ticker example_provider) 100 True
     ''top'' ''month'' =
     (Inr [\<lparr>StockMention.ticker = ''XYZ'', post_id = ''p1'',
            post_title = ascii ''$XYZ to the moon'',
            StockMention.post_date = \<lparr>date = 738887, time_of_day = 34200\<rparr>, post_score = 10,
            post_url = ''https://reddit.com/r/pennystocks/p1'', author = ''alice''\<rparr>],
      [''XYZ''])"
  by (simp add: fetch_posts_def example_subreddit_def example_post_def extractor_eval
      mentions_of_post_def fromtimestamp_def)

section \<open>Properties of the reporting\<close>

lemma map_of_periods_loop:
  "map_of (periods_loop data ps) period =
     (if period \<in> set ps \<and> dropna (map (column (''return_'' @ period)) data) \<noteq> []
      then Some (horizon_stats (dropna (map (column (''return_'' @ period)) data)))
      else None)"
  by (induction ps) (auto simp: Let_def)

lemma horizon_stats_example:
  "horizon_stats [Finite 5, Finite (- 5), Finite 15, Finite (- 15), Finite 25] =
     \<lparr>count = 5, mean_return = Finite 5, positive_returns = 3, negative_returns = 2,
      win_rate = Finite 60, best_return = Finite 25, worst_return = Finite (- 15),
      returns_over_10pct = 2, returns_over_25pct = 0, returns_under_minus10pct = 1\<rparr>"
  by (simp add: horizon_stats_def fmean_def fmax_def fmin_def count_where_def fgt_def f64_eval
      pairwise_sum.simps [of "[Finite 5, Finite (- 5), Finite 15, Finite (- 15), Finite 25]"])

lemma valid_data_example:
  "dropna (map (column (''return_'' @ ''1d'')) example_rows) =
     [Finite 5, Finite (- 5), Finite 15, Finite (- 15), Finite 25]"
  by (simp add: example_rows_def example_row_def column_def)

section \<open>The claims\<close>

text \<open>
  C1. In \<open>calculate_performance\<close>, for every record emitted and every configured horizon,
  the trading date matched to the horizon is the nearest one on or after the target date
  (the post's calendar date plus the offset), never an earlier one: it is the least date of
  the fetched series that is not before the target. The match is accepted exactly when that
  least date is at most 5 days after the target; then the horizon's price is the close on
  that date and the return is set too. Otherwise (no such date, or a difference of 6 days
  or more) the horizon's price and return are both left unset.
\<close>

theorem horizon_matching:
  assumes "perf \<in> set (calculate_performance history mentions)"
    and "(days, return_attr, price_attr) \<in> set TIME_PERIODS"
  shows "\<exists>mention stock_data.
           first_mention (performance_key perf) mentions = Some mention \<and>
           fetched history mention = Some stock_data \<and>
           (let target_date = date (StockMention.post_date mention) + days;
                later = dates_from stock_data target_date
            in if later \<noteq> {} \<and> Min later - target_date \<le> 5
               then target_date \<le> Min later \<and> Min later \<in> fst ` set stock_data \<and>
                    getattr perf price_attr = close_on stock_data (Min later) \<and>
                    getattr perf price_attr \<noteq> None \<and> getattr perf return_attr \<noteq> None
               else getattr perf price_attr = None \<and> getattr perf return_attr = None)"
proof -
  obtain m where m: "first_mention (performance_key perf) mentions = Some m"
    "process_mention history TIME_PERIODS m = Some perf"
    using calculate_performance_mem[OF assms(1)] by blast
  obtain data a p0 where d: "fetched history m = Some data"
    "perf = performance_record m data p0"
    using process_mention_cases[OF m(2)] by blast
  let ?t = "date (StockMention.post_date m) + days"
  have g: "getattr perf price_attr = horizon_close data ?t"
    "getattr perf return_attr = map_option (\<lambda>c. return_pct c p0) (horizon_close data ?t)"
    using getattr_performance_record[OF assms(2)] d(2) by simp_all
  have "if dates_from data ?t \<noteq> {} \<and> Min (dates_from data ?t) - ?t \<le> 5
        then ?t \<le> Min (dates_from data ?t) \<and> Min (dates_from data ?t) \<in> fst ` set data \<and>
             getattr perf price_attr = close_on data (Min (dates_from data ?t)) \<and>
             getattr perf price_attr \<noteq> None \<and> getattr perf return_attr \<noteq> None
        else getattr perf price_attr = None \<and> getattr perf return_attr = None"
  proof (cases "dates_from data ?t \<noteq> {} \<and> Min (dates_from data ?t) - ?t \<le> 5")
    case True
    then have hc: "horizon_close data ?t = close_on data (Min (dates_from data ?t))"
      by (simp add: horizon_close_def)
    show ?thesis
      using True horizon_close_Some[of data ?t] g hc by auto
  next
    case False
    then have "horizon_close data ?t = None"
      by (auto simp: horizon_close_def Let_def)
    then show ?thesis using False g by simp
  qed
  then show ?thesis using m(1) d(1) unfolding Let_def by blast
qed

theorem horizon_matching_witness:
  "gap_record \<in> set (calculate_performance example_history [example_mention ''GAP'' ''p1'' 34200])
   \<and> (1, ''return_1d'', ''price_1d'') \<in> set TIME_PERIODS
   \<and> Min (dates_from gap_series (738887 + 1)) - (738887 + 1) = 6
   \<and> getattr gap_record ''price_1d'' = None \<and> getattr gap_record ''return_1d'' = None"
proof -
  have h1: "gap_record \<in> set (calculate_performance example_history [example_mention ''GAP'' ''p1'' 34200])"
    by (simp add: calculate_performance_single process_gap)
  have h2: "(1, ''return_1d'', ''price_1d'') \<in> set TIME_PERIODS"
    by (simp add: TIME_PERIODS_def)
  have k: "performance_key gap_record = (''GAP'', 738887)"
    by (simp add: performance_key_def gap_record_def)
  have fm: "first_mention (''GAP'', 738887) [example_mention ''GAP'' ''p1'' 34200]
      = Some (example_mention ''GAP'' ''p1'' 34200)"
    by (simp add: first_mention_def mention_key_def example_mention_def)
  have day: "date (StockMention.post_date (example_mention ''GAP'' ''p1'' 34200)) = 738887"
    by (simp add: example_mention_def)
  have gap: "Min (dates_from gap_series (738887 + 1)) - (738887 + 1) = 6"
    by (simp add: dates_from_def gap_series_def)
  have ne: "dates_from gap_series (738887 + 1) \<noteq> {}"
    by (simp add: dates_from_def gap_series_def)
  from horizon_matching[OF h1 h2] obtain mention stock_data where
    *: "first_mention (performance_key gap_record) [example_mention ''GAP'' ''p1'' 34200] = Some mention"
       "fetched example_history mention = Some stock_data"
       "(let target_date = date (StockMention.post_date mention) + 1;
             later = dates_from stock_data target_date
         in if later \<noteq> {} \<and> Min later - target_date \<le> 5
            then target_date \<le> Min later \<and> Min later \<in> fst ` set stock_data \<and>
                 getattr gap_record ''price_1d'' = close_on stock_data (Min later) \<and>
                 getattr gap_record ''price_1d'' \<noteq> None \<and> getattr gap_record ''return_1d'' \<noteq> None
            else getattr gap_record ''price_1d'' = None \<and> getattr gap_record ''return_1d'' = None)"
    by blast
  have mm: "mention = example_mention ''GAP'' ''p1'' 34200" using *(1) k fm by simp
  have sd: "stock_data = gap_series" using *(2) mm fetched_example(2) by simp
  have "getattr gap_record ''price_1d'' = None \<and> getattr gap_record ''return_1d'' = None"
    using *(3) gap ne unfolding mm sd day Let_def by simp
  then show ?thesis using h1 h2 gap by blast
qed

text \<open>
  C4. For every accepted horizon match of an emitted record, the horizon's price is the close
  on the matched trading date (a date of the fetched series between the target date and 5
  days after it), and the horizon's return is the value of
  \<^verbatim>\<open>((price - price_at_post) / price_at_post) * 100\<close> in binary64 arithmetic, stored as computed,
  with no rounding step after it. In particular an anchor price of 10.00 and a matched close
  of 11.50 give a return of exactly 15.
\<close>

theorem return_is_percentage_of_anchor:
  assumes "perf \<in> set (calculate_performance history mentions)"
    and "(days, return_attr, price_attr) \<in> set TIME_PERIODS"
    and "getattr perf price_attr = Some price_h"
  shows "(\<exists>mention stock_data matched.
            first_mention (performance_key perf) mentions = Some mention \<and>
            fetched history mention = Some stock_data \<and>
            matched \<in> fst ` set stock_data \<and>
            date (StockMention.post_date mention) + days \<le> matched \<and>
            matched \<le> date (StockMention.post_date mention) + days + 5 \<and>
            close_on stock_data matched = Some price_h) \<and>
         getattr perf return_attr =
           Some (fmul (fdiv (fsub price_h (price_at_post perf)) (price_at_post perf))
                   (Finite 100)) \<and>
         (price_at_post perf = Finite 10 \<and> price_h = Finite (23 / 2) \<longrightarrow>
            getattr perf return_attr = Some (Finite 15))"
proof -
  obtain m where m: "first_mention (performance_key perf) mentions = Some m"
    "process_mention history TIME_PERIODS m = Some perf"
    using calculate_performance_mem[OF assms(1)] by blast
  obtain data a p0 where d: "fetched history m = Some data"
    "perf = performance_record m data p0"
    using process_mention_cases[OF m(2)] by blast
  let ?t = "date (StockMention.post_date m) + days"
  let ?M = "Min (dates_from data ?t)"
  have p0: "price_at_post perf = p0"
    using d(2) by (simp add: performance_record_def Let_def)
  have g: "getattr perf price_attr = horizon_close data ?t"
    "getattr perf return_attr = map_option (\<lambda>c. return_pct c p0) (horizon_close data ?t)"
    using getattr_performance_record[OF assms(2)] d(2) by simp_all
  have hc: "horizon_close data ?t = Some price_h" using g(1) assms(3) by simp
  then have acc: "dates_from data ?t \<noteq> {}" "?M - ?t \<le> 5" "close_on data ?M = Some price_h"
    by (auto simp: horizon_close_def Let_def split: if_splits)
  have "?M \<in> fst ` set data" "?t \<le> ?M"
    using horizon_close_Some[OF acc(1)] by auto
  then have ex: "\<exists>mention stock_data matched.
            first_mention (performance_key perf) mentions = Some mention \<and>
            fetched history mention = Some stock_data \<and>
            matched \<in> fst ` set stock_data \<and>
            date (StockMention.post_date mention) + days \<le> matched \<and>
            matched \<le> date (StockMention.post_date mention) + days + 5 \<and>
            close_on stock_data matched = Some price_h"
    using m(1) d(1) acc(2,3) by (intro exI[of _ m] exI[of _ data] exI[of _ ?M]) auto
  have r: "getattr perf return_attr = Some (return_pct price_h (price_at_post perf))"
    using g(2) hc p0 by simp
  then have r': "getattr perf return_attr =
           Some (fmul (fdiv (fsub price_h (price_at_post perf)) (price_at_post perf))
                   (Finite 100))"
    by (simp add: return_pct_def)
  have "price_at_post perf = Finite 10 \<and> price_h = Finite (23 / 2) \<longrightarrow>
            getattr perf return_attr = Some (Finite 15)"
    using r return_pct_15 by auto
  with ex r' show ?thesis by blast
qed

theorem return_is_percentage_of_anchor_witness:
  "gap_record \<in> set (calculate_performance example_history [example_mention ''GAP'' ''p1'' 34200])
   \<and> (3, ''return_3d'', ''price_3d'') \<in> set TIME_PERIODS
   \<and> getattr gap_record ''price_3d'' = Some (Finite (23 / 2))
   \<and> price_at_post gap_record = Finite 10
   \<and> getattr gap_record ''return_3d'' = Some (Finite 15)"
proof -
  have h1: "gap_record \<in> set (calculate_performance example_history [example_mention ''GAP'' ''p1'' 34200])"
    by (simp add: gap_output)
  have h2: "(3, ''return_3d'', ''price_3d'') \<in> set TIME_PERIODS"
    by (simp add: TIME_PERIODS_def)
  have h3: "getattr gap_record ''price_3d'' = Some (Finite (23 / 2))"
    by (simp add: getattr_def gap_record_def)
  have h4: "price_at_post gap_record = Finite 10"
    by (simp add: gap_record_def)
  from return_is_percentage_of_anchor[OF h1 h2 h3] h4
  have "getattr gap_record ''return_3d'' = Some (Finite 15)" by blast
  then show ?thesis using h1 h2 h3 h4 by blast
qed

text \<open>
  C10. For every record emitted by \<open>calculate_performance\<close> and every configured horizon,
  the return field is unset exactly when the price field is unset; and \<open>price_at_post\<close>, a
  field that cannot be unset, holds a close of the series fetched for the record's mention.
\<close>

theorem horizon_fields_set_together:
  assumes "perf \<in> set (calculate_performance history mentions)"
    and "(days, return_attr, price_attr) \<in> set TIME_PERIODS"
  shows "(getattr perf return_attr = None \<longleftrightarrow> getattr perf price_attr = None) \<and>
         (\<exists>mention stock_data d.
            first_mention (performance_key perf) mentions = Some mention \<and>
            fetched history mention = Some stock_data \<and>
            (d, price_at_post perf) \<in> set stock_data)"
proof -
  obtain m where m: "first_mention (performance_key perf) mentions = Some m"
    "process_mention history TIME_PERIODS m = Some perf"
    using calculate_performance_mem[OF assms(1)] by blast
  obtain data a p0 where d: "fetched history m = Some data" "(a, p0) \<in> set data"
    "perf = performance_record m data p0"
    using process_mention_cases[OF m(2)] by blast
  have p0: "price_at_post perf = p0"
    using d(3) by (simp add: performance_record_def Let_def)
  have "getattr perf return_attr = None \<longleftrightarrow> getattr perf price_attr = None"
    using getattr_performance_record[OF assms(2), of m data p0] d(3) by simp
  moreover have "\<exists>mention stock_data d.
            first_mention (performance_key perf) mentions = Some mention \<and>
            fetched history mention = Some stock_data \<and>
            (d, price_at_post perf) \<in> set stock_data"
    using m(1) d(1,2) p0 by blast
  ultimately show ?thesis by blast
qed

theorem horizon_fields_set_together_witness:
  "gap_record \<in> set (calculate_performance example_history [example_mention ''GAP'' ''p1'' 34200])
   \<and> (14, ''return_2w'', ''price_2w'') \<in> set TIME_PERIODS
   \<and> (getattr gap_record ''return_2w'' = None \<longleftrightarrow> getattr gap_record ''price_2w'' = None)
   \<and> getattr gap_record ''price_2w'' = Some (Finite 12)"
proof -
  have h1: "gap_record \<in> set (calculate_performance example_history [example_mention ''GAP'' ''p1'' 34200])"
    by (simp add: gap_output)
  have h2: "(14, ''return_2w'', ''price_2w'') \<in> set TIME_PERIODS"
    by (simp add: TIME_PERIODS_def)
  have h3: "getattr gap_record ''price_2w'' = Some (Finite 12)"
    by (simp add: getattr_def gap_record_def)
  from horizon_fields_set_together[OF h1 h2] h1 h2 h3 show ?thesis by blast
qed

text \<open>
  C2, as the code has it. For every input mention list and every (ticker, calendar date)
  pair that appears more than once in it, \<open>calculate_performance\<close> produces at most one
  record for that pair. It produces exactly one, carrying the full timestamp of the pair's
  first mention as its \<open>post_date\<close>, when the provider has rows for that first mention with
  a trading date on or after the post's calendar date; it produces none otherwise. The later
  mentions of the pair are skipped in both cases.
\<close>

theorem one_record_per_pair:
  assumes "1 < length (mentions_of_pair k mentions)"
  shows "\<exists>first. first_mention k mentions = Some first \<and>
           (if has_anchor history first
            then \<exists>perf. records_of_pair k (calculate_performance history mentions) = [perf] \<and>
                   StockPerformance.post_date perf = StockMention.post_date first
            else records_of_pair k (calculate_performance history mentions) = [])"
proof -
  have "mentions_of_pair k mentions \<noteq> []" using assms by auto
  then obtain m where m: "first_mention k mentions = Some m"
    using mentions_of_pair_first by blast
  have "StockPerformance.post_date (performance_record m data p0) = StockMention.post_date m"
    for data p0 by (simp add: performance_record_def Let_def)
  then have "if has_anchor history m
            then \<exists>perf. records_of_pair k (calculate_performance history mentions) = [perf] \<and>
                   StockPerformance.post_date perf = StockMention.post_date m
            else records_of_pair k (calculate_performance history mentions) = []"
    using records_of_first_mention[OF m, of history] by (auto split: if_splits)
  then show ?thesis using m by blast
qed

theorem one_record_per_pair_witness:
  "1 < length (mentions_of_pair (''XYZ'', 738887)
         [example_mention ''XYZ'' ''p1'' 34200, example_mention ''XYZ'' ''p2'' 72000]) \<and>
   (\<exists>perf. records_of_pair (''XYZ'', 738887)
             (calculate_performance example_history
                [example_mention ''XYZ'' ''p1'' 34200, example_mention ''XYZ'' ''p2'' 72000])
             = [perf] \<and>
           StockPerformance.post_date perf = \<lparr>date = 738887, time_of_day = 34200\<rparr>)"
proof -
  let ?ms = "[example_mention ''XYZ'' ''p1'' 34200, example_mention ''XYZ'' ''p2'' 72000]"
  have h: "1 < length (mentions_of_pair (''XYZ'', 738887) ?ms)"
    by (simp add: mentions_of_pair_def mention_key_def example_mention_def)
  have pd: "StockMention.post_date (example_mention ''XYZ'' ''p1'' 34200)
      = \<lparr>date = 738887, time_of_day = 34200\<rparr>"
    by (simp add: example_mention_def)
  from one_record_per_pair[OF h, of example_history]
  have "\<exists>perf. records_of_pair (''XYZ'', 738887) (calculate_performance example_history ?ms)
             = [perf] \<and>
           StockPerformance.post_date perf = \<lparr>date = 738887, time_of_day = 34200\<rparr>"
    by (simp add: first_mention_example has_anchor_example pd)
  then show ?thesis using h by blast
qed

text \<open>
  The claim as stated promises exactly one record for every repeated pair. A ticker for
  which the provider has no rows is mentioned twice on one day, and no record is produced.
\<close>

theorem one_record_per_pair_counterexample:
  "1 < length (mentions_of_pair (''NONE'', 738887)
         [example_mention ''NONE'' ''p1'' 34200, example_mention ''NONE'' ''p2'' 72000]) \<and>
   records_of_pair (''NONE'', 738887)
     (calculate_performance example_history
        [example_mention ''NONE'' ''p1'' 34200, example_mention ''NONE'' ''p2'' 72000]) = []"
proof -
  let ?ms = "[example_mention ''NONE'' ''p1'' 34200, example_mention ''NONE'' ''p2'' 72000]"
  have none: "process_mention example_history TIME_PERIODS (example_mention ''NONE'' ''p1'' 34200) = None"
    by (intro process_mention_None) (simp add: fetched_example)
  have fm: "first_mention (''NONE'', 738887) ?ms = Some (example_mention ''NONE'' ''p1'' 34200)"
    by (rule first_mention_example)
  have len: "1 < length (mentions_of_pair (''NONE'', 738887) ?ms)"
    by (simp add: mentions_of_pair_def mention_key_def example_mention_def)
  have "records_of_pair (''NONE'', 738887) (calculate_performance example_history ?ms) = []"
    using none by (simp add: calculate_performance_records fm)
  then show ?thesis using len by blast
qed




text \<open>
  C5. \<open>calculate_performance\<close> emits one record for every surviving pair that has an anchor
  price, whatever its horizons resolve to: when no horizon is resolvable the record, with
  its five return fields unset, is still in the returned sequence.
\<close>

theorem record_emitted_without_horizons:
  assumes "first_mention k mentions = Some mention"
    and "fetched history mention = Some stock_data"
    and "dates_from stock_data (date (StockMention.post_date mention)) \<noteq> {}"
  shows "\<exists>perf. records_of_pair k (calculate_performance history mentions) = [perf] \<and>
           perf \<in> set (calculate_performance history mentions) \<and>
           ((\<forall>(days, return_attr, price_attr) \<in> set TIME_PERIODS.
               horizon_close stock_data (date (StockMention.post_date mention) + days) = None)
            \<longrightarrow> return_1d perf = None \<and> return_3d perf = None \<and> return_1w perf = None \<and>
                return_2w perf = None \<and> return_1m perf = None)"
proof -
  have "has_anchor history mention" using assms(2,3) by (simp add: has_anchor_def)
  then obtain p0 where p0:
    "records_of_pair k (calculate_performance history mentions)
       = [performance_record mention stock_data p0]"
    using records_of_first_mention[OF assms(1), of history] assms(2) by auto
  let ?perf = "performance_record mention stock_data p0"
  have "?perf \<in> set (records_of_pair k (calculate_performance history mentions))"
    using p0 by simp
  then have mem: "?perf \<in> set (calculate_performance history mentions)"
    by (simp add: records_of_pair_def)
  have "(\<forall>(days, return_attr, price_attr) \<in> set TIME_PERIODS.
               horizon_close stock_data (date (StockMention.post_date mention) + days) = None)
            \<longrightarrow> return_1d ?perf = None \<and> return_3d ?perf = None \<and> return_1w ?perf = None \<and>
                return_2w ?perf = None \<and> return_1m ?perf = None"
    by (simp add: TIME_PERIODS_def performance_record_def Let_def)
  then show ?thesis using p0 mem by blast
qed

theorem record_emitted_without_horizons_witness:
  "first_mention (''ONE'', 738887) [example_mention ''ONE'' ''p1'' 34200]
     = Some (example_mention ''ONE'' ''p1'' 34200) \<and>
   fetched example_history (example_mention ''ONE'' ''p1'' 34200) = Some one_series \<and>
   dates_from one_series (date (StockMention.post_date (example_mention ''ONE'' ''p1'' 34200)))
     \<noteq> {} \<and>
   (\<exists>perf. records_of_pair (''ONE'', 738887)
             (calculate_performance example_history [example_mention ''ONE'' ''p1'' 34200])
             = [perf] \<and>
           perf \<in> set (calculate_performance example_history
                         [example_mention ''ONE'' ''p1'' 34200]) \<and>
           return_1d perf = None \<and> return_3d perf = None \<and> return_1w perf = None \<and>
           return_2w perf = None \<and> return_1m perf = None)"
proof -
  let ?m = "example_mention ''ONE'' ''p1'' 34200"
  have h1: "first_mention (''ONE'', 738887) [?m] = Some ?m"
    by (simp add: first_mention_example)
  have h2: "fetched example_history ?m = Some one_series"
    by (simp add: fetched_example)
  have day: "date (StockMention.post_date ?m) = 738887"
    by (simp add: example_mention_def)
  have h3: "dates_from one_series (date (StockMention.post_date ?m)) \<noteq> {}"
    unfolding day by (simp add: dates_from_def one_series_def)
  have none: "\<forall>(days, return_attr, price_attr) \<in> set TIME_PERIODS.
      horizon_close one_series (date (StockMention.post_date ?m) + days) = None"
    unfolding day using horizon_close_one by (simp add: TIME_PERIODS_def)
  from record_emitted_without_horizons[OF h1 h2 h3] none
  have "\<exists>perf. records_of_pair (''ONE'', 738887) (calculate_performance example_history [?m])
             = [perf] \<and>
           perf \<in> set (calculate_performance example_history [?m]) \<and>
           return_1d perf = None \<and> return_3d perf = None \<and> return_1w perf = None \<and>
           return_2w perf = None \<and> return_1m perf = None"
    by blast
  then show ?thesis using h1 h2 h3 by blast
qed

text \<open>
  C7, as the code has it. \<open>validate_ticker\<close> accepts a candidate exactly when the provider
  raises no error, the metadata it returns has more than one entry and holds at least one of
  the fields \<^verbatim>\<open>symbol\<close>, \<^verbatim>\<open>longName\<close> and \<^verbatim>\<open>regularMarketPrice\<close>, and the trailing 5-day
  history has at least one row. An error of the provider, on the metadata or on the history,
  gives \<open>False\<close>; no exception reaches the caller.
\<close>

theorem validate_ticker_accepts_iff:
  "(validate_ticker provider t \<longleftrightarrow>
      (\<exists>info hist.
         ticker_info provider t = Inr info \<and> 1 < dict_len info \<and>
         (\<exists>field \<in> {''symbol'', ''longName'', ''regularMarketPrice''}. field \<in> fst ` set info) \<and>
         ticker_history provider t = Inr hist \<and> hist \<noteq> [])) \<and>
   ((\<exists>e. ticker_info provider t = Inl e) \<longrightarrow> \<not> validate_ticker provider t) \<and>
   ((\<exists>e. ticker_history provider t = Inl e) \<longrightarrow> \<not> validate_ticker provider t)"
proof -
  have len: "dict_len info \<le> 1" if "info = []" for info :: "(string \<times> 'a) list"
    using that by (simp add: dict_len_def)
  have iff: "validate_ticker provider t \<longleftrightarrow>
      (\<exists>info hist.
         ticker_info provider t = Inr info \<and> 1 < dict_len info \<and>
         (\<exists>field \<in> {''symbol'', ''longName'', ''regularMarketPrice''}. field \<in> fst ` set info) \<and>
         ticker_history provider t = Inr hist \<and> hist \<noteq> [])"
  proof (cases "ticker_info provider t")
    case (Inl e)
    then show ?thesis by (simp add: validate_ticker_def)
  next
    case (Inr info)
    show ?thesis
    proof (cases "ticker_history provider t")
      case (Inl e)
      then show ?thesis using Inr by (simp add: validate_ticker_def Let_def)
    next
      case hist: (Inr hist)
      show ?thesis
        using Inr hist len[of info]
        by (auto simp: validate_ticker_def Let_def not_le)
    qed
  qed
  then show ?thesis by auto
qed

theorem validate_ticker_accepts_iff_witness:
  "validate_ticker example_provider ''XYZ'' \<and> \<not> validate_ticker example_provider ''ERR'' \<and>
   \<not> validate_ticker example_provider ''NONE''"
proof -
  have a: "ticker_info example_provider ''XYZ'' = Inr [(''symbol'', ''XYZ''), (''longName'', ''XYZ Corp'')]"
    "ticker_history example_provider ''XYZ'' = Inr [(738887, Finite 10)]"
    "ticker_info example_provider ''ERR'' = Inl ProviderError"
    "ticker_history example_provider ''NONE'' = Inr []"
    by (simp_all add: example_provider_def)
  have l: "1 < dict_len [(''symbol'', ''XYZ''), (''longName'', ''XYZ Corp'')]"
    by (simp add: dict_len_def)
  have "validate_ticker example_provider ''XYZ''"
    using validate_ticker_accepts_iff[of example_provider "''XYZ''"] a(1,2) l by simp
  moreover have "\<not> validate_ticker example_provider ''ERR''"
    using validate_ticker_accepts_iff[of example_provider "''ERR''"] a(3) by simp
  moreover have "\<not> validate_ticker example_provider ''NONE''"
    using validate_ticker_accepts_iff[of example_provider "''NONE''"] a(4) by simp
  ultimately show ?thesis by blast
qed

text \<open>
  The claim as stated accepts whenever no error is raised, a recognised field is present
  and the history has a row. The metadata \<^verbatim>\<open>{'symbol': 'XYZ'}\<close> has a recognised field
  and the history has a row, yet the guard \<^verbatim>\<open>len(info) <= 1\<close> rejects the ticker.
\<close>

theorem validate_ticker_counterexample:
  "ticker_info single_entry_provider ''XYZ'' = Inr [(''symbol'', ''XYZ'')] \<and>
   ticker_history single_entry_provider ''XYZ'' = Inr [(738887, Finite 10)] \<and>
   ''symbol'' \<in> fst ` set [(''symbol'', ''XYZ'')] \<and>
   \<not> validate_ticker single_entry_provider ''XYZ''"
  by (simp add: single_entry_provider_def validate_ticker_def dict_len_def)

text \<open>
  C8. For every input text that has no \<^verbatim>\<open>$SYMBOL\<close>-shaped part after upper-casing (a
  dollar sign, 1 to 5 capital letters, then the end of the text or a character that is not
  a word character), \<open>extract_tickers_from_text\<close> returns an empty result and makes no
  validation call. The text is any sequence of Unicode code points, and the statement holds
  whatever the tables of \<^verbatim>\<open>str.upper\<close> and \<^verbatim>\<open>\w\<close> are.
\<close>

theorem no_symbol_no_validation:
  assumes "\<not> has_dollar_symbol (word_char rt) (str_upper rt text)"
  shows "extract_tickers_from_text rt validate text = ([], [])"
proof -
  have "findall (word_char rt) (str_upper rt text) = []"
    using assms findall_has_dollar_symbol by blast
  then show ?thesis by (simp add: extract_tickers_from_text_def)
qed

theorem no_symbol_no_validation_witness:
  "\<not> has_dollar_symbol (word_char example_runtime)
       (str_upper example_runtime (ascii ''$5 for $abcdefg or $x_y or $abc'' @ [233])) \<and>
   extract_tickers_from_text example_runtime (validate_ticker example_provider)
     (ascii ''$5 for $abcdefg or $x_y or $abc'' @ [233]) = ([], [])"
proof -
  have w: "word_char example_runtime = latin_word" by (simp add: example_runtime_def)
  have h: "\<not> has_dollar_symbol (word_char example_runtime)
       (str_upper example_runtime (ascii ''$5 for $abcdefg or $x_y or $abc'' @ [233]))"
    using has_dollar_symbol_findall[of latin_word
        "ascii ''$5 FOR $ABCDEFG OR $X_Y OR $ABC'' @ [201]"] is_upper_latin_word
    unfolding upper_example w findall_example by blast
  from no_symbol_no_validation[OF h] h show ?thesis by blast
qed

text \<open>
  C9. For every sort mode other than hot, new, top and rising, \<open>fetch_posts\<close> raises its
  error at once: the result is the \<^verbatim>\<open>ValueError\<close>, no mention is produced, and no post has
  been processed (no validation call was made).
\<close>

theorem invalid_sort_raises:
  assumes "sort_by \<notin> {''hot'', ''new'', ''top'', ''rising''}"
  shows "fetch_posts rt subreddit validate limit use_title_only sort_by time_filter =
           (Inl (ValueError (''Invalid sort option: '' @ sort_by)), [])"
  using assms by (simp add: fetch_posts_def)

theorem invalid_sort_raises_witness:
  "''best'' \<notin> {''hot'', ''new'', ''top'', ''rising''} \<and>
   fetch_posts example_runtime example_subreddit (validate_ticker example_provider) 100 True
     ''best'' ''month'' =
     (Inl (ValueError ''Invalid sort option: best''), [])"
proof -
  have h: "''best'' \<notin> {''hot'', ''new'', ''top'', ''rising''}" by simp
  from invalid_sort_raises[OF h, of example_runtime example_subreddit
      "validate_ticker example_provider" 100 True "''month''"] h
  show ?thesis by simp
qed

text \<open>
  C6, as the code has it. For any one horizon whose non-null returns are exactly
  5, -5, 15, -15 and 25, \<open>analyze_profitability\<close> reports a win rate of 60 percent (three of
  the five returns are greater than 0), 2 returns over 10 percent, 1 return under -10
  percent and a mean of 5.
\<close>

theorem profitability_of_five_returns:
  assumes "period \<in> set [''1d'', ''3d'', ''1w'', ''2w'', ''1m'']"
    and "dropna (map (column (''return_'' @ period)) data) =
           [Finite 5, Finite (- 5), Finite 15, Finite (- 15), Finite 25]"
  shows "\<exists>stats. period_stats (analyze_profitability data) period = Some stats \<and>
           win_rate stats = Finite 60 \<and> returns_over_10pct stats = 2 \<and>
           returns_under_minus10pct stats = 1 \<and> mean_return stats = Finite 5"
proof -
  have ne: "data \<noteq> []" using assms(2) by auto
  have "map_of (periods_loop data [''1d'', ''3d'', ''1w'', ''2w'', ''1m'']) period =
      Some (horizon_stats [Finite 5, Finite (- 5), Finite 15, Finite (- 15), Finite 25])"
    unfolding map_of_periods_loop assms(2) using assms(1) by simp
  then have "period_stats (analyze_profitability data) period =
      Some (horizon_stats [Finite 5, Finite (- 5), Finite 15, Finite (- 15), Finite 25])"
    using ne by (simp add: period_stats_def analyze_profitability_def del: periods_loop.simps)
  then show ?thesis by (simp add: horizon_stats_example)
qed

theorem profitability_of_five_returns_witness:
  "''1d'' \<in> set [''1d'', ''3d'', ''1w'', ''2w'', ''1m''] \<and>
   dropna (map (column (''return_'' @ ''1d'')) example_rows) =
     [Finite 5, Finite (- 5), Finite 15, Finite (- 15), Finite 25] \<and>
   (\<exists>stats. period_stats (analyze_profitability example_rows) ''1d'' = Some stats \<and>
      win_rate stats = Finite 60 \<and> returns_over_10pct stats = 2 \<and>
      returns_under_minus10pct stats = 1 \<and> mean_return stats = Finite 5)"
proof -
  have h1: "''1d'' \<in> set [''1d'', ''3d'', ''1w'', ''2w'', ''1m'']" by simp
  from profitability_of_five_returns[OF h1 valid_data_example] h1 valid_data_example
  show ?thesis by blast
qed

text \<open>
  The claim as stated gives a win rate of 40 percent for these returns; the code reports 60.
\<close>

theorem win_rate_counterexample:
  "dropna (map (column ''return_1d'') example_rows) =
     [Finite 5, Finite (- 5), Finite 15, Finite (- 15), Finite 25] \<and>
   map_option win_rate (period_stats (analyze_profitability example_rows) ''1d'')
     = Some (Finite 60) \<and>
   Finite 60 \<noteq> Finite 40"
proof -
  have v: "dropna (map (column ''return_1d'') example_rows) =
     [Finite 5, Finite (- 5), Finite 15, Finite (- 15), Finite 25]"
    using valid_data_example by simp
  have ne: "example_rows \<noteq> []" by (simp add: example_rows_def)
  have "map_of (periods_loop example_rows [''1d'', ''3d'', ''1w'', ''2w'', ''1m'']) ''1d'' =
      Some (horizon_stats [Finite 5, Finite (- 5), Finite 15, Finite (- 15), Finite 25])"
    unfolding map_of_periods_loop valid_data_example by simp
  then have "period_stats (analyze_profitability example_rows) ''1d'' =
      Some (horizon_stats [Finite 5, Finite (- 5), Finite 15, Finite (- 15), Finite 25])"
    using ne by (simp add: period_stats_def analyze_profitability_def del: periods_loop.simps)
  then show ?thesis using v by (simp add: horizon_stats_example)
qed

end
